theory Spec2Isabelle
  imports Complex_Main
begin

section \<open>Shell text utilities used by the workflows\<close>

text \<open>
  The workflow scripts reduce a version tag with two shell idioms:
  \<^verbatim>\<open>cut -d '.' -f 1-2 <<< $tag\<close> and \<^verbatim>\<open>${x#v}\<close>.
  Tags are single-line strings; \<^verbatim>\<open>cut\<close> splits the line at every dot, keeps the first
  two fields and joins them with a dot again (a line without a dot is printed whole).
\<close>

fun split_on :: "char \<Rightarrow> string \<Rightarrow> string list" where
  "split_on d [] = [[]]"
| "split_on d (c # cs) =
     (if c = d then [] # split_on d cs
      else (case split_on d cs of
              [] \<Rightarrow> [[c]]
            | w # ws \<Rightarrow> (c # w) # ws))"

fun join_with :: "char \<Rightarrow> string list \<Rightarrow> string" where
  "join_with d [] = []"
| "join_with d [w] = w"
| "join_with d (w # v # ws) = w @ d # join_with d (v # ws)"

definition cut_f12 :: "string \<Rightarrow> string" where
  "cut_f12 line = join_with (CHR ''.'') (take 2 (split_on (CHR ''.'') line))"

text \<open>\<^verbatim>\<open>${x#v}\<close>: remove one leading \<^verbatim>\<open>v\<close> when there is one.\<close>

fun strip_v :: "string \<Rightarrow> string" where
  "strip_v (c # cs) = (if c = CHR ''v'' then cs else c # cs)"
| "strip_v [] = []"

definition major_minor :: "string \<Rightarrow> string" where
  "major_minor tag = strip_v (cut_f12 tag)"

section \<open>Deploy On Release: the check-versions job\<close>

text \<open>
  The step \<^verbatim>\<open>compare\<close> of job \<^verbatim>\<open>check-versions\<close>. The script runs under the
  platform's default \<^verbatim>\<open>bash -e\<close>: when \<^verbatim>\<open>git describe\<close> finds no previous tag the
  assignment fails and the step stops there. The result of \<^verbatim>\<open>git describe\<close> is the
  parameter \<open>described\<close> (\<open>None\<close> when it fails); \<open>tag_name\<close> is
  \<^verbatim>\<open>github.event.release.tag_name\<close>.
\<close>

record step_result =
  exit_ok :: bool
  stdout :: "string list"
  github_output :: "(string \<times> string) list"

definition warning_line :: string where
  "warning_line =
     ''::warning::Major/Minor version was not changed. Skipping website & docs generation step.''"

definition updating_line :: "string \<Rightarrow> string \<Rightarrow> string" where
  "updating_line previous_version tag_name =
     ''Updating from version '' @ previous_version @ '' to '' @ tag_name"

definition compare_step :: "string option \<Rightarrow> string \<Rightarrow> step_result" where
  "compare_step described tag_name =
     (case described of
        None \<Rightarrow> \<lparr>exit_ok = False, stdout = [], github_output = []\<rparr>
      | Some previous_version \<Rightarrow>
          (let prev = cut_f12 previous_version;
               prev = strip_v prev;
               next = cut_f12 tag_name;
               next = strip_v next;
               out = [updating_line previous_version tag_name]
           in if prev = next
              then \<lparr>exit_ok = True, stdout = out @ [warning_line], github_output = []\<rparr>
              else \<lparr>exit_ok = True, stdout = out,
                     github_output = [(''major_minor_changed'', ''true'')]\<rparr>))"

text \<open>
  The job output \<^verbatim>\<open>major_minor_changed\<close> is
  \<^verbatim>\<open>steps.compare.outputs.major_minor_changed\<close>: the value written for that key, and
  unset when the step wrote none.
\<close>

definition check_versions_output :: "string option \<Rightarrow> string \<Rightarrow> string option" where
  "check_versions_output described tag_name =
     map_of (github_output (compare_step described tag_name)) ''major_minor_changed''"

section \<open>Workflows as data, and how the platform runs them\<close>

text \<open>
  The workflow files are data for GitHub Actions. The part of its expression language
  that the two workflows use: an input, an output of a needed job compared with a
  string literal, negation and conjunction. No condition in either file calls a
  status function (\<^verbatim>\<open>always()\<close>, \<^verbatim>\<open>failure()\<close>), so every condition carries the
  platform's implicit \<^verbatim>\<open>success() &&\<close>, which \<open>run_steps\<close> and \<open>run_job\<close> apply.
\<close>

datatype gval = GNull | GBool bool | GStr string

datatype gexpr =
    Input string
  | NeedsOutputEq string string string
  | Not gexpr
  | And gexpr gexpr

datatype outcome = Success | Failure | Skipped

datatype action = Run "string list" | Uses string

record step =
  step_id :: string
  step_name :: string
  step_if :: "gexpr option"
  continue_on_error :: bool
  step_action :: action

datatype body = Steps "step list" | Calls string

record job =
  job_id :: string
  job_needs :: "string list"
  job_if :: "gexpr option"
  job_outputs :: "(string \<times> string \<times> string) list"
  job_body :: body

record job_result =
  conclusion :: outcome
  outputs :: "(string \<times> string) list"
  step_outcomes :: "outcome list"

text \<open>Falsy values are \<^verbatim>\<open>null\<close>, \<^verbatim>\<open>false\<close> and the empty string.\<close>

fun truthy :: "gval \<Rightarrow> bool" where
  "truthy GNull = False"
| "truthy (GBool b) = b"
| "truthy (GStr s) = (s \<noteq> [])"

text \<open>The platform compares strings ignoring case.\<close>

definition lower_char :: "char \<Rightarrow> char" where
  "lower_char c =
     (case map_of (zip ''ABCDEFGHIJKLMNOPQRSTUVWXYZ'' ''abcdefghijklmnopqrstuvwxyz'') c of
        None \<Rightarrow> c
      | Some l \<Rightarrow> l)"

definition str_eq_nocase :: "string \<Rightarrow> string \<Rightarrow> bool" where
  "str_eq_nocase a b = (map lower_char a = map lower_char b)"

text \<open>
  \<^verbatim>\<open>needs.<job>.outputs.<name>\<close> is the string the needed job published, and the empty
  string when it published none.
\<close>

definition needs_output :: "(string \<times> job_result) list \<Rightarrow> string \<Rightarrow> string \<Rightarrow> string" where
  "needs_output results j n =
     (case map_of results j of
        None \<Rightarrow> []
      | Some r \<Rightarrow> (case map_of (outputs r) n of None \<Rightarrow> [] | Some v \<Rightarrow> v))"

fun eval :: "(string \<Rightarrow> gval) \<Rightarrow> (string \<times> job_result) list \<Rightarrow> gexpr \<Rightarrow> gval" where
  "eval inp results (Input n) = inp n"
| "eval inp results (NeedsOutputEq j n lit) =
     GBool (str_eq_nocase (needs_output results j n) lit)"
| "eval inp results (Not e) = GBool (\<not> truthy (eval inp results e))"
| "eval inp results (And a b) =
     (let v = eval inp results a in if truthy v then eval inp results b else v)"

definition cond_holds ::
  "(string \<Rightarrow> gval) \<Rightarrow> (string \<times> job_result) list \<Rightarrow> gexpr option \<Rightarrow> bool" where
  "cond_holds inp results c =
     (case c of None \<Rightarrow> True | Some e \<Rightarrow> truthy (eval inp results e))"

text \<open>
  Steps run in order. \<open>w i\<close> is what step \<open>i\<close> does when it is executed. A step is
  executed when no earlier step has failed the job and its condition holds; a failed
  step fails the job unless it sets \<^verbatim>\<open>continue-on-error\<close>.
\<close>

definition no_result :: step_result where
  "no_result = \<lparr>exit_ok = True, stdout = [], github_output = []\<rparr>"

fun run_steps ::
  "(nat \<Rightarrow> step_result) \<Rightarrow> (string \<Rightarrow> gval) \<Rightarrow> (string \<times> job_result) list
   \<Rightarrow> step list \<Rightarrow> nat \<Rightarrow> bool \<Rightarrow> (outcome \<times> step_result) list" where
  "run_steps w inp results [] i ok = []"
| "run_steps w inp results (s # ss) i ok =
     (if ok \<and> cond_holds inp results (step_if s)
      then (if exit_ok (w i)
            then (Success, w i) # run_steps w inp results ss (Suc i) True
            else (Failure, w i) # run_steps w inp results ss (Suc i) (continue_on_error s))
      else (Skipped, no_result) # run_steps w inp results ss (Suc i) ok)"

definition steps_conclusion :: "step list \<Rightarrow> (outcome \<times> step_result) list \<Rightarrow> outcome" where
  "steps_conclusion ss rs =
     (if list_ex (\<lambda>(s, r). fst r = Failure \<and> \<not> continue_on_error s) (zip ss rs)
      then Failure else Success)"

text \<open>
  A job output \<^verbatim>\<open>name: ${{ steps.<id>.outputs.<key> }}\<close> reads what the step with that
  id wrote to its output file.
\<close>

definition step_output ::
  "step list \<Rightarrow> (outcome \<times> step_result) list \<Rightarrow> string \<Rightarrow> string \<Rightarrow> string" where
  "step_output ss rs sid key =
     (case find (\<lambda>(s, r). step_id s = sid) (zip ss rs) of
        None \<Rightarrow> []
      | Some (s, r) \<Rightarrow> (case map_of (github_output (snd r)) key of None \<Rightarrow> [] | Some v \<Rightarrow> v))"

definition skipped_job :: "job \<Rightarrow> job_result" where
  "skipped_job j =
     \<lparr>conclusion = Skipped, outputs = [],
      step_outcomes = (case job_body j of Steps ss \<Rightarrow> map (\<lambda>s. Skipped) ss | Calls f \<Rightarrow> [])\<rparr>"

text \<open>
  A job runs when every job it needs concluded with success and its own condition
  holds; otherwise it is skipped. A job that calls another workflow is one opaque
  unit whose result is \<open>w 0\<close>.
\<close>

definition needs_met :: "(string \<times> job_result) list \<Rightarrow> job \<Rightarrow> bool" where
  "needs_met results j =
     list_all (\<lambda>n. case map_of results n of None \<Rightarrow> False | Some r \<Rightarrow> conclusion r = Success)
       (job_needs j)"

definition run_job ::
  "(nat \<Rightarrow> step_result) \<Rightarrow> (string \<Rightarrow> gval) \<Rightarrow> (string \<times> job_result) list \<Rightarrow> job
   \<Rightarrow> job_result" where
  "run_job w inp results j =
     (if needs_met results j \<and> cond_holds inp results (job_if j)
      then (case job_body j of
              Steps ss \<Rightarrow>
                (let rs = run_steps w inp results ss 0 True
                 in \<lparr>conclusion = steps_conclusion ss rs,
                     outputs = map (\<lambda>(name, sid, key). (name, step_output ss rs sid key))
                                 (job_outputs j),
                     step_outcomes = map fst rs\<rparr>)
            | Calls f \<Rightarrow>
                \<lparr>conclusion = (if exit_ok (w 0) then Success else Failure),
                 outputs = [], step_outcomes = []\<rparr>)
      else skipped_job j)"

text \<open>
  The jobs of a workflow, taken in the order of the file; \<open>world j i\<close> is what step
  \<open>i\<close> of job \<open>j\<close> does when executed. Both workflows below list every job after the
  jobs it needs, so this order is one the platform's scheduler can take.
\<close>

fun run_jobs ::
  "(string \<Rightarrow> nat \<Rightarrow> step_result) \<Rightarrow> (string \<Rightarrow> gval) \<Rightarrow> (string \<times> job_result) list
   \<Rightarrow> job list \<Rightarrow> (string \<times> job_result) list" where
  "run_jobs world inp results [] = results"
| "run_jobs world inp results (j # js) =
     run_jobs world inp (results @ [(job_id j, run_job (world (job_id j)) inp results j)]) js"

definition run_workflow ::
  "(string \<Rightarrow> nat \<Rightarrow> step_result) \<Rightarrow> (string \<Rightarrow> gval) \<Rightarrow> job list
   \<Rightarrow> (string \<times> job_result) list" where
  "run_workflow world inp jobs = run_jobs world inp [] jobs"

definition result_of :: "(string \<times> job_result) list \<Rightarrow> string \<Rightarrow> job_result" where
  "result_of results j =
     (case map_of results j of
        None \<Rightarrow> \<lparr>conclusion = Skipped, outputs = [], step_outcomes = []\<rparr>
      | Some r \<Rightarrow> r)"

definition job_ran :: "(string \<times> job_result) list \<Rightarrow> string \<Rightarrow> bool" where
  "job_ran results j = (conclusion (result_of results j) \<noteq> Skipped)"

definition job_succeeded :: "(string \<times> job_result) list \<Rightarrow> string \<Rightarrow> bool" where
  "job_succeeded results j = (conclusion (result_of results j) = Success)"

definition step_ran :: "(string \<times> job_result) list \<Rightarrow> string \<Rightarrow> nat \<Rightarrow> bool" where
  "step_ran results j i =
     (i < length (step_outcomes (result_of results j))
      \<and> step_outcomes (result_of results j) ! i \<noteq> Skipped)"

definition topologically_listed :: "job list \<Rightarrow> bool" where
  "topologically_listed jobs =
     list_all (\<lambda>k. list_all (\<lambda>n. n \<in> set (map job_id (take k jobs))) (job_needs (jobs ! k)))
       [0..<length jobs]"

definition plain_step :: "string \<Rightarrow> action \<Rightarrow> step" where
  "plain_step name a =
     \<lparr>step_id = [], step_name = name, step_if = None, continue_on_error = False,
      step_action = a\<rparr>"



section \<open>The Deploy On Release workflow\<close>

definition tests_and_coverage :: job where
  "tests_and_coverage =
     \<lparr>job_id = ''tests-and-coverage'', job_needs = [], job_if = None, job_outputs = [],
      job_body = Calls ''./.github/workflows/reusable_test.yml''\<rparr>"

definition package_deploy_pypi :: job where
  "package_deploy_pypi =
     \<lparr>job_id = ''package-deploy-pypi'', job_needs = [''tests-and-coverage''],
      job_if = None, job_outputs = [],
      job_body = Steps
        [plain_step ''actions/checkout@v4'' (Uses ''actions/checkout@v4''),
         plain_step ''Install uv'' (Uses ''astral-sh/setup-uv@v5''),
         plain_step ''Fetch all history for all tags and branches''
           (Run [''git fetch --prune --unshallow'']),
         plain_step ''Set up Python'' (Uses ''actions/setup-python@v5''),
         plain_step ''Install dependencies''
           (Run [''uv pip install .[test]'',
                 ''uv pip install --upgrade build setuptools setuptools_scm wheel'']),
         plain_step ''Build packages (wheel and source distribution)''
           (Run [''python -m build --sdist --wheel'']),
         plain_step ''Verify packages'' (Run [''./scripts/verify_py_packages.sh'']),
         plain_step ''Deploy to PyPI'' (Uses ''pypa/gh-action-pypi-publish@release/v1'')]\<rparr>"

text \<open>
  The script of the step \<^verbatim>\<open>compare\<close>, line by line (an apostrophe of the script is
  written \<open>CHR 0x27\<close>).
\<close>

definition compare_script :: "string list" where
  \<open>compare_script =
     [''git fetch --tags --force'',
      ''previous_version=$(git describe --tags --abbrev=0 ${{ github.event.release.tag_name }}^)'',
      ''prev=$(cut -d '' @ [CHR 0x27] @ ''.'' @ [CHR 0x27] @ '' -f 1-2 <<< $previous_version)'',
      ''prev=${prev#v}'',
      ''next=$(cut -d '' @ [CHR 0x27] @ ''.'' @ [CHR 0x27]
         @ '' -f 1-2 <<< ${{ github.event.release.tag_name }})'',
      ''next=${next#v}'',
      ''echo "Updating from version $previous_version to ${{ github.event.release.tag_name }}"'',
      ''if [[ "$prev" == "$next" ]]; then'',
      ''  echo "::warning::Major/Minor version was not changed. Skipping website & docs generation step."'',
      ''else'',
      ''  echo major_minor_changed=true >> $GITHUB_OUTPUT'',
      ''fi'']\<close>

definition check_versions :: job where
  "check_versions =
     \<lparr>job_id = ''check-versions'', job_needs = [''package-deploy-pypi''], job_if = None,
      job_outputs = [(''major_minor_changed'', ''compare'', ''major_minor_changed'')],
      job_body = Steps
        [plain_step ''actions/checkout@v4'' (Uses ''actions/checkout@v4''),
         \<lparr>step_id = ''compare'', step_name = ''Check if major or minor version changed'',
          step_if = None, continue_on_error = False, step_action = Run compare_script\<rparr>]\<rparr>"

definition version_and_publish_website :: job where
  "version_and_publish_website =
     \<lparr>job_id = ''version-and-publish-website'', job_needs = [''check-versions''],
      job_if = Some (NeedsOutputEq ''check-versions'' ''major_minor_changed'' ''true''),
      job_outputs = [],
      job_body = Calls ''./.github/workflows/publish_website.yml''\<rparr>"

definition deploy_on_release :: "job list" where
  "deploy_on_release =
     [tests_and_coverage, package_deploy_pypi, check_versions, version_and_publish_website]"

text \<open>
  What the steps of a release run do. \<open>ok j i\<close> says whether the commands of step \<open>i\<close>
  of job \<open>j\<close> go through, and \<open>outs j i\<close> what the step writes to its output file; both
  are arbitrary. The step \<^verbatim>\<open>compare\<close> (step 1 of \<^verbatim>\<open>check-versions\<close>) is the script
  embedded as \<open>compare_step\<close>: when its first command fails it has written nothing.
\<close>

definition release_world ::
  "(string \<Rightarrow> nat \<Rightarrow> bool) \<Rightarrow> (string \<Rightarrow> nat \<Rightarrow> (string \<times> string) list)
   \<Rightarrow> string option \<Rightarrow> string \<Rightarrow> string \<Rightarrow> nat \<Rightarrow> step_result" where
  "release_world ok outs described tag_name j i =
     (if j = ''check-versions'' \<and> i = 1
      then (if ok j i then compare_step described tag_name
            else \<lparr>exit_ok = False, stdout = [], github_output = []\<rparr>)
      else \<lparr>exit_ok = ok j i, stdout = [], github_output = outs j i\<rparr>)"

definition no_inputs :: "string \<Rightarrow> gval" where
  "no_inputs n = GNull"

definition release_run ::
  "(string \<Rightarrow> nat \<Rightarrow> bool) \<Rightarrow> (string \<Rightarrow> nat \<Rightarrow> (string \<times> string) list)
   \<Rightarrow> string option \<Rightarrow> string \<Rightarrow> (string \<times> job_result) list" where
  "release_run ok outs described tag_name =
     run_workflow (release_world ok outs described tag_name) no_inputs deploy_on_release"

section \<open>The Publish Website workflow\<close>

definition delete_script :: "string list" where
  \<open>delete_script =
     [''MAJOR_MINOR_VERSION=$(cut -d '' @ [CHR 0x27] @ ''.'' @ [CHR 0x27]
         @ '' -f 1-2 <<< ${{ inputs.new_version }})'',
      ''MAJOR_MINOR_VERSION=${MAJOR_MINOR_VERSION#v}'',
      ''for dir in website/versioned_docs/version-$MAJOR_MINOR_VERSION.*; do'',
      ''    if [ -d "$dir" ]; then'',
      ''        OLD_VERSION=$(basename "$dir" | sed '' @ [CHR 0x27] @ ''s/^version-//''
         @ [CHR 0x27] @ '')'',
      ''        echo "Deleting older version $OLD_VERSION with the same major and minor version numbers as $NEW_VERSION"'',
      ''        rm -rf "$dir"'',
      ''        rm "website/versioned_sidebars/version-$OLD_VERSION-sidebars.json"'',
      ''        sed -i "/'' @ [CHR 0x5C] @ ''"$OLD_VERSION''
         @ [CHR 0x5C] @ ''"/d" website/versions.json'',
      ''    fi'',
      ''done'']\<close>

definition create_version_script :: "string list" where
  \<open>create_version_script =
     [''python3 scripts/convert_ipynb_to_mdx.py --clean'',
      ''cd website'',
      ''yarn'',
      ''yarn docusaurus docs:version ${{ inputs.new_version }}'',
      [],
      ''git add versioned_docs/ versioned_sidebars/ versions.json'',
      ''git commit -m "Create version ${{ inputs.new_version }} of site in Docusaurus"'',
      ''git push --force origin HEAD:docusaurus-versions'']\<close>

definition build_website :: job where
  \<open>build_website =
     \<lparr>job_id = ''build-website'', job_needs = [], job_if = None, job_outputs = [],
      job_body = Steps
        [plain_step ''actions/checkout@v4'' (Uses ''actions/checkout@v4''),
         plain_step ''Install uv'' (Uses ''astral-sh/setup-uv@v5''),
         plain_step ''Sync release branch with main''
           (Run [''git config --global user.name "github-actions[bot]"'',
                 ''git config --global user.email "41898282+github-actions[bot]@users.noreply.github.com"'',
                 ''git merge origin/main'']),
         plain_step ''Set up Python'' (Uses ''actions/setup-python@v5''),
         (plain_step ''Install latest GPyTorch and Linear Operator''
           (Run [''uv pip install git+https://github.com/cornellius-gp/linear_operator.git'',
                 ''uv pip install git+https://github.com/cornellius-gp/gpytorch.git'']))
           \<lparr>step_if := Some (Not (Input ''new_version''))\<rparr>,
         plain_step ''Install dependencies'' (Run [''uv pip install ."[dev, tutorials]"'']),
         (plain_step ''Delete existing similar versions from Docusaurus'' (Run delete_script))
           \<lparr>step_if := Some (Input ''new_version'')\<rparr>,
         (plain_step ''Create new docusaurus version'' (Run create_version_script))
           \<lparr>step_if := Some (And (Input ''new_version'') (Not (Input ''dry_run'')))\<rparr>,
         plain_step ''Build website'' (Run [''bash scripts/build_docs.sh -b'']),
         (plain_step ''Upload website build as artifact''
           (Uses ''actions/upload-pages-artifact@v3''))
           \<lparr>step_id := ''deployment''\<rparr>]\<rparr>\<close>

definition deploy_website :: job where
  "deploy_website =
     \<lparr>job_id = ''deploy-website'', job_needs = [''build-website''],
      job_if = Some (Not (Input ''dry_run'')), job_outputs = [],
      job_body = Steps
        [(plain_step ''Deploy to GitHub Pages'' (Uses ''actions/deploy-pages@v4''))
           \<lparr>step_id := ''deployment''\<rparr>]\<rparr>"

definition publish_website :: "job list" where
  "publish_website = [build_website, deploy_website]"

text \<open>
  The inputs of a run: \<^verbatim>\<open>new_version\<close> (a string, empty when not given) and the
  booleans \<^verbatim>\<open>run_tutorials\<close> and \<^verbatim>\<open>dry_run\<close>; any other name is \<^verbatim>\<open>null\<close>.
\<close>

definition publish_inputs :: "string \<Rightarrow> bool \<Rightarrow> bool \<Rightarrow> string \<Rightarrow> gval" where
  "publish_inputs new_version run_tutorials dry_run n =
     (if n = ''new_version'' then GStr new_version
      else if n = ''run_tutorials'' then GBool run_tutorials
      else if n = ''dry_run'' then GBool dry_run
      else GNull)"

text \<open>The steps whose script pushes to the remote, named by job and step.\<close>

fun has_infix :: "string \<Rightarrow> string \<Rightarrow> bool" where
  "has_infix p [] = (p = [])"
| "has_infix p (c # cs) = (take (length p) (c # cs) = p \<or> has_infix p cs)"

definition pushes :: "step \<Rightarrow> bool" where
  "pushes s =
     (case step_action s of
        Run script \<Rightarrow> list_ex (has_infix ''git push'') script
      | Uses a \<Rightarrow> False)"

definition steps_of :: "job \<Rightarrow> step list" where
  "steps_of j = (case job_body j of Steps ss \<Rightarrow> ss | Calls f \<Rightarrow> [])"

definition pushing_steps :: "job list \<Rightarrow> (string \<times> string) list" where
  "pushing_steps jobs =
     concat (map (\<lambda>j. map (\<lambda>s. (job_id j, step_name s)) (filter pushes (steps_of j))) jobs)"

section \<open>Publish Website: deleting the versions of the same major.minor\<close>

text \<open>
  The script of the step \<^verbatim>\<open>Delete existing similar versions from Docusaurus\<close>
  (\<open>delete_script\<close> above) works on three places under \<^verbatim>\<open>website/\<close>: the entries of
  \<^verbatim>\<open>versioned_docs/\<close> (a name, and whether it is a directory), the files of
  \<^verbatim>\<open>versioned_sidebars/\<close>, and the lines of \<^verbatim>\<open>versions.json\<close>.
\<close>

record site =
  versioned_docs :: "(string \<times> bool) list"
  versioned_sidebars :: "string list"
  versions_json :: "string list"

text \<open>
  The pattern \<^verbatim>\<open>version-$MAJOR_MINOR_VERSION.*\<close> matches the names that start with
  \<^verbatim>\<open>version-\<close>, the reduced version and a dot (version strings are made of letters,
  digits, dots and dashes, none of which is special in a pattern).
\<close>

definition glob_matches :: "string \<Rightarrow> string \<Rightarrow> bool" where
  "glob_matches mm name =
     (take (length (''version-'' @ mm @ ''.'')) name = ''version-'' @ mm @ ''.'')"

text \<open>
  \<^verbatim>\<open>sed -i "/\"$OLD_VERSION\"/d"\<close> deletes every line in which the regular expression
  matches somewhere. The expression is the old version between double quotes; in it a
  dot matches any character and a letter, digit, dash or quote matches itself.
\<close>

fun match_here :: "string \<Rightarrow> string \<Rightarrow> bool" where
  "match_here [] text = True"
| "match_here (p # ps) [] = False"
| "match_here (p # ps) (c # cs) = ((p = CHR ''.'' \<or> p = c) \<and> match_here ps cs)"

fun sed_matches :: "string \<Rightarrow> string \<Rightarrow> bool" where
  "sed_matches re [] = match_here re []"
| "sed_matches re (c # cs) = (match_here re (c # cs) \<or> sed_matches re cs)"

definition quoted :: "string \<Rightarrow> string" where
  "quoted v = [CHR 0x22] @ v @ [CHR 0x22]"

text \<open>
  One turn of the loop for each name the pattern expanded to. The script runs under
  \<^verbatim>\<open>bash -e\<close>: when \<^verbatim>\<open>rm\<close> does not find the sidebar file the step stops there, after
  the directory is gone. The result is whether the step succeeded, and the site left.
\<close>

fun delete_loop :: "string list \<Rightarrow> site \<Rightarrow> bool \<times> site" where
  "delete_loop [] s = (True, s)"
| "delete_loop (dir # dirs) s =
     (if (dir, True) \<in> set (versioned_docs s)
      then (let OLD_VERSION = drop (length ''version-'') dir;
                s1 = s\<lparr>versioned_docs := filter (\<lambda>e. fst e \<noteq> dir) (versioned_docs s)\<rparr>;
                sidebar = ''version-'' @ OLD_VERSION @ ''-sidebars.json''
            in if sidebar \<in> set (versioned_sidebars s1)
               then delete_loop dirs
                      (s1\<lparr>versioned_sidebars := removeAll sidebar (versioned_sidebars s1),
                          versions_json :=
                            filter (\<lambda>line. \<not> sed_matches (quoted OLD_VERSION) line)
                              (versions_json s1)\<rparr>)
               else (False, s1))
      else delete_loop dirs s)"

definition delete_similar_versions :: "string \<Rightarrow> site \<Rightarrow> bool \<times> site" where
  "delete_similar_versions new_version s =
     (let MAJOR_MINOR_VERSION = cut_f12 new_version;
          MAJOR_MINOR_VERSION = strip_v MAJOR_MINOR_VERSION
      in delete_loop (filter (glob_matches MAJOR_MINOR_VERSION) (map fst (versioned_docs s))) s)"

text \<open>
  A site that holds the versions 1.2.3 and 112.3, each with its directory, its sidebar
  file and its line of \<^verbatim>\<open>versions.json\<close>.
\<close>

definition two_versions :: site where
  "two_versions =
     \<lparr>versioned_docs = [(''version-1.2.3'', True), (''version-112.3'', True)],
      versioned_sidebars = [''version-1.2.3-sidebars.json'', ''version-112.3-sidebars.json''],
      versions_json = [''['', ''  '' @ quoted ''1.2.3'' @ '','', ''  '' @ quoted ''112.3'', '']'']\<rparr>"

section \<open>The discrete-fidelity knowledge-gradient tutorial\<close>

subsection \<open>Values and the library\<close>

text \<open>
  A two-dimensional tensor is the list of its rows, its entries real numbers (the
  arithmetic of the notebook is taken exactly). An exception is a value \<open>Exn\<close>; a
  function that can raise returns \<open>exn + 'a\<close>, and \<open>bind\<close> is sequencing: the first
  exception ends the computation and is its result.
\<close>

type_synonym tensor = "real list list"

datatype exn = Exn string

definition bind :: "exn + 'a \<Rightarrow> ('a \<Rightarrow> exn + 'b) \<Rightarrow> exn + 'b" where
  "bind m f = (case m of Inl e \<Rightarrow> Inl e | Inr v \<Rightarrow> f v)"

text \<open>The objects the notebook builds with the library's constructors, as data.\<close>

record affine_cost =
  fidelity_weights :: "(nat \<times> real) list"
  fixed_cost :: real

record gp =
  train_X :: tensor
  train_Y :: tensor
  standardize_m :: nat
  data_fidelities :: "nat list"
  fitted :: bool

datatype mll = ExactMarginalLogLikelihood gp

datatype utility = InverseCostWeightedUtility affine_cost

datatype acqf =
    PosteriorMean gp
  | FixedFeatureAcquisitionFunction acqf nat "nat list" "real list"
  | qMultiFidelityKnowledgeGradient gp nat real utility "(nat \<times> real) list"
  | qLogExpectedImprovement gp real

text \<open>
  A call into the library, with its arguments. What the library answers is not in
  the notebook, so it is a parameter, the record \<open>library\<close>: whether a call raises, the random
  numbers drawn, the value of the test function on a row, and the points, the choices
  and the values that numerical search returns.
\<close>

datatype call =
    Problem tensor
  | Standardize nat
  | NewGP tensor tensor nat "nat list"
  | NewMLL gp
  | FitMLL mll
  | NewAcqf acqf
  | CostForward affine_cost tensor
  | Project tensor "(nat \<times> real) list"
  | OptimizeAcqf acqf tensor nat nat nat "(string \<times> nat) list"
  | OptimizeAcqfMixed acqf tensor "(nat \<times> real) list list" nat nat nat "(string \<times> nat) list"
  | ConstructXFull acqf tensor

record library =
  raises :: "call \<Rightarrow> exn option"
  rand_entry :: "nat \<Rightarrow> nat \<Rightarrow> real"
  randint_entry :: "nat \<Rightarrow> nat \<Rightarrow> nat"
  objective :: "real list \<Rightarrow> real"
  found :: "call \<Rightarrow> nat \<Rightarrow> nat \<Rightarrow> real"
  chosen :: "call \<Rightarrow> nat \<Rightarrow> nat"
  acq_value :: "call \<Rightarrow> real"

definition lib :: "library \<Rightarrow> call \<Rightarrow> 'a \<Rightarrow> exn + 'a" where
  "lib L c v = (case raises L c of Some e \<Rightarrow> Inl e | None \<Rightarrow> Inr v)"

subsection \<open>Tensor operations of torch\<close>

definition ncols :: "tensor \<Rightarrow> nat" where
  "ncols T = (case T of [] \<Rightarrow> 0 | r # rs \<Rightarrow> length r)"

text \<open>\<^verbatim>\<open>torch.rand(n, m)\<close> and \<^verbatim>\<open>torch.randint(high, (n, m))\<close>.\<close>

definition torch_rand :: "library \<Rightarrow> nat \<Rightarrow> nat \<Rightarrow> tensor" where
  "torch_rand L n m = map (\<lambda>i. map (\<lambda>j. rand_entry L i j) [0..<m]) [0..<n]"

definition torch_randint :: "library \<Rightarrow> nat \<Rightarrow> nat \<Rightarrow> nat \<Rightarrow> nat list list" where
  "torch_randint L high n m =
     map (\<lambda>i. map (\<lambda>j. randint_entry L i j mod high) [0..<m]) [0..<n]"

text \<open>
  \<^verbatim>\<open>torch.cat((A, B), dim=1)\<close> needs as many rows in \<open>A\<close> as in \<open>B\<close>;
  \<^verbatim>\<open>torch.cat([A, B])\<close> needs rows of the same width.
\<close>

definition torch_cat_dim1 :: "tensor \<Rightarrow> tensor \<Rightarrow> exn + tensor" where
  "torch_cat_dim1 A B =
     (if length A = length B then Inr (map2 (@) A B)
      else Inl (Exn ''RuntimeError: Sizes of tensors must match except in dimension 1''))"

definition torch_cat :: "tensor \<Rightarrow> tensor \<Rightarrow> exn + tensor" where
  "torch_cat A B =
     (if A = [] \<or> B = [] \<or> ncols A = ncols B then Inr (A @ B)
      else Inl (Exn ''RuntimeError: Sizes of tensors must match except in dimension 0''))"

text \<open>\<^verbatim>\<open>v.unsqueeze(-1)\<close> on a vector, \<^verbatim>\<open>T.sum()\<close> and \<^verbatim>\<open>T.max()\<close> on a tensor.\<close>

definition unsqueeze_last :: "real list \<Rightarrow> tensor" where
  "unsqueeze_last v = map (\<lambda>x. [x]) v"

definition tensor_sum :: "tensor \<Rightarrow> real" where
  "tensor_sum T = sum_list (map sum_list T)"


subsection \<open>Functions of the library\<close>

text \<open>
  Modelled from the spec: the test function \<^verbatim>\<open>AugmentedHartmann\<close> of
  \<^verbatim>\<open>botorch.test_functions.multi_fidelity\<close>, which is not among the sources. It has
  seven input dimensions (six design parameters and the fidelity) and gives one value
  for each row; the values are a parameter.
\<close>

definition problem_dim :: nat where
  "problem_dim = 7"

definition problem :: "library \<Rightarrow> tensor \<Rightarrow> exn + real list" where
  "problem L X = lib L (Problem X) (map (objective L) X)"

text \<open>
  Modelled from the spec: \<^verbatim>\<open>AffineFidelityCostModel\<close> of \<^verbatim>\<open>botorch.models.cost\<close>,
  the affine cost model: the cost of a row is the fixed cost plus, for each fidelity
  column, its weight times the row's entry there; one cost for each row.
\<close>

definition AffineFidelityCostModel :: "(nat \<times> real) list \<Rightarrow> real \<Rightarrow> affine_cost" where
  "AffineFidelityCostModel weights fixed = \<lparr>fidelity_weights = weights, fixed_cost = fixed\<rparr>"

definition row_cost :: "affine_cost \<Rightarrow> real list \<Rightarrow> real" where
  "row_cost cm x = fixed_cost cm + sum_list (map (\<lambda>(k, w). w * x ! k) (fidelity_weights cm))"

definition cost_forward :: "library \<Rightarrow> affine_cost \<Rightarrow> tensor \<Rightarrow> exn + tensor" where
  "cost_forward L cm X =
     (if list_all (\<lambda>x. list_all (\<lambda>(k, w). k < length x) (fidelity_weights cm)) X
      then lib L (CostForward cm X) (map (\<lambda>x. [row_cost cm x]) X)
      else Inl (Exn ''IndexError: index out of range''))"

text \<open>
  Modelled from the spec: fixing features. A dictionary of fixed features
  \<^verbatim>\<open>{column: value}\<close> overwrites those columns of a point.
\<close>

definition fix_features :: "(nat \<times> real) list \<Rightarrow> real list \<Rightarrow> real list" where
  "fix_features ff x = fold (\<lambda>(k, v) r. r[k := v]) ff x"


text \<open>
  Modelled from the spec: \<^verbatim>\<open>optimize_acqf\<close> of \<^verbatim>\<open>botorch.optim.optimize\<close>. It returns
  \<open>q\<close> candidates, each with one coordinate for every column of \<open>bounds\<close>, and the
  acquisition value; which point the search finds is a parameter.
\<close>

definition optimize_acqf ::
  "library \<Rightarrow> acqf \<Rightarrow> tensor \<Rightarrow> nat \<Rightarrow> nat \<Rightarrow> nat \<Rightarrow> (string \<times> nat) list \<Rightarrow> exn + tensor \<times> real" where
  "optimize_acqf L acq_function bounds q num_restarts raw_samples options =
     (let c = OptimizeAcqf acq_function bounds q num_restarts raw_samples options
      in lib L c (map (\<lambda>i. map (\<lambda>j. found L c i j) [0..<ncols bounds]) [0..<q], acq_value L c))"

text \<open>
  Modelled from the spec: \<^verbatim>\<open>optimize_acqf_mixed\<close> of \<^verbatim>\<open>botorch.optim.optimize\<close>. Every
  one of the \<open>q\<close> candidates is generated with the features of one dictionary of
  \<open>fixed_features_list\<close> fixed; which dictionary is kept for a candidate is a
  parameter. An empty list is rejected.
\<close>

definition optimize_acqf_mixed ::
  "library \<Rightarrow> acqf \<Rightarrow> tensor \<Rightarrow> (nat \<times> real) list list \<Rightarrow> nat \<Rightarrow> nat \<Rightarrow> nat
   \<Rightarrow> (string \<times> nat) list \<Rightarrow> exn + tensor \<times> real" where
  "optimize_acqf_mixed L acq_function bounds fixed_features_list q num_restarts raw_samples options =
     (let c = OptimizeAcqfMixed acq_function bounds fixed_features_list q num_restarts
                raw_samples options
      in if fixed_features_list = []
         then Inl (Exn ''ValueError: fixed_features_list must be non-empty.'')
         else lib L c
                (map (\<lambda>i. fix_features
                            (fixed_features_list ! (chosen L c i mod length fixed_features_list))
                            (map (\<lambda>j. found L c i j) [0..<ncols bounds]))
                   [0..<q],
                 acq_value L c))"

text \<open>
  Modelled from the spec: \<^verbatim>\<open>FixedFeatureAcquisitionFunction._construct_X_full\<close>. For
  an acquisition function over \<open>d\<close> columns with the columns \<open>columns\<close> fixed to
  \<open>values\<close>, it reinserts the fixed columns into every row of a tensor over the other
  columns: column \<open>j\<close> of the result is the fixed value when \<open>j\<close> is a fixed column, and
  otherwise the next coordinate of the row. A row of the wrong width is rejected.
\<close>

fun construct_row :: "nat \<Rightarrow> nat \<Rightarrow> (nat \<times> real) list \<Rightarrow> real list \<Rightarrow> real list" where
  "construct_row 0 j fixed x = []"
| "construct_row (Suc n) j fixed x =
     (case map_of fixed j of
        Some v \<Rightarrow> v # construct_row n (Suc j) fixed x
      | None \<Rightarrow> (case x of
                   [] \<Rightarrow> []
                 | y # ys \<Rightarrow> y # construct_row n (Suc j) fixed ys))"

definition construct_X_full :: "library \<Rightarrow> acqf \<Rightarrow> tensor \<Rightarrow> exn + tensor" where
  "construct_X_full L acq X =
     (case acq of
        FixedFeatureAcquisitionFunction inner d columns values \<Rightarrow>
          (if list_all (\<lambda>x. length x + length values = d) X
              \<and> length columns = length values
           then lib L (ConstructXFull acq X) (map (construct_row d 0 (zip columns values)) X)
           else Inl (Exn ''ValueError: Feature dimension d is not consistent with X''))
      | _ \<Rightarrow> Inl (Exn ''AttributeError: _construct_X_full''))"

text \<open>
  Modelled from the spec: the constructors of the surrogate model, of its marginal
  likelihood and of the acquisition functions, and \<^verbatim>\<open>fit_gpytorch_mll\<close>. A constructor
  returns the object it is given the parts of, unless it raises; fitting marks the
  model inside the likelihood as fitted (the notebook's variable \<^verbatim>\<open>model\<close> is that same
  object).
\<close>

definition SingleTaskMultiFidelityGP ::
  "library \<Rightarrow> tensor \<Rightarrow> tensor \<Rightarrow> nat \<Rightarrow> nat list \<Rightarrow> exn + gp" where
  "SingleTaskMultiFidelityGP L X Y m fid =
     lib L (NewGP X Y m fid)
       \<lparr>train_X = X, train_Y = Y, standardize_m = m, data_fidelities = fid, fitted = False\<rparr>"

definition new_mll :: "library \<Rightarrow> gp \<Rightarrow> exn + mll" where
  "new_mll L model = lib L (NewMLL model) (ExactMarginalLogLikelihood model)"

definition fit_gpytorch_mll :: "library \<Rightarrow> mll \<Rightarrow> exn + mll" where
  "fit_gpytorch_mll L m =
     (case m of
        ExactMarginalLogLikelihood g \<Rightarrow>
          lib L (FitMLL m) (ExactMarginalLogLikelihood (g\<lparr>fitted := True\<rparr>)))"

definition model_of :: "mll \<Rightarrow> gp" where
  "model_of m = (case m of ExactMarginalLogLikelihood g \<Rightarrow> g)"

definition new_acqf :: "library \<Rightarrow> acqf \<Rightarrow> exn + acqf" where
  "new_acqf L a = lib L (NewAcqf a) a"

subsection \<open>The notebook\<close>

text \<open>
  \<^verbatim>\<open>SMOKE_TEST = os.environ.get("SMOKE_TEST")\<close> is \<open>None\<close> or a string, and
  \<^verbatim>\<open>not SMOKE_TEST\<close> holds for \<open>None\<close> and for the empty string.
\<close>

definition py_not :: "string option \<Rightarrow> bool" where
  "py_not v = (case v of None \<Rightarrow> True | Some s \<Rightarrow> s = [])"

definition fidelities :: "real list" where
  "fidelities = [0.5, 0.75, 1.0]"

definition generate_initial_data :: "library \<Rightarrow> nat \<Rightarrow> exn + tensor \<times> tensor" where
  "generate_initial_data L n =
     (let train_x = torch_rand L n 6;
          train_f = map (map (\<lambda>k. fidelities ! k)) (torch_randint L 3 n 1)
      in bind (torch_cat_dim1 train_x train_f) (\<lambda>train_x_full.
         bind (problem L train_x_full) (\<lambda>values.
         Inr (train_x_full, unsqueeze_last values))))"

definition initialize_model :: "library \<Rightarrow> tensor \<Rightarrow> tensor \<Rightarrow> exn + mll \<times> gp" where
  "initialize_model L train_x train_obj =
     bind (lib L (Standardize 1) 1) (\<lambda>outcome_transform.
     bind (SingleTaskMultiFidelityGP L train_x train_obj outcome_transform [6]) (\<lambda>model.
     bind (new_mll L model) (\<lambda>mll.
     Inr (mll, model))))"

definition bounds :: tensor where
  "bounds = [replicate problem_dim 0, replicate problem_dim 1]"

definition target_fidelities :: "(nat \<times> real) list" where
  "target_fidelities = [(6, 1.0)]"

definition cost_model :: affine_cost where
  "cost_model = AffineFidelityCostModel [(6, 1.0)] 0.25"

definition cost_aware_utility :: utility where
  "cost_aware_utility = InverseCostWeightedUtility cost_model"


text \<open>
  \<^verbatim>\<open>bounds[:, :-1]\<close> is \<open>map butlast bounds\<close>. The acquisition function keeps the
  target fidelities that its argument \<^verbatim>\<open>project\<close> projects to.
\<close>

definition get_mfkg :: "string option \<Rightarrow> library \<Rightarrow> gp \<Rightarrow> exn + acqf" where
  "get_mfkg SMOKE_TEST L model =
     bind (new_acqf L (PosteriorMean model)) (\<lambda>posterior_mean.
     bind (new_acqf L (FixedFeatureAcquisitionFunction posterior_mean 7 [6] [1]))
       (\<lambda>curr_val_acqf.
     bind (optimize_acqf L curr_val_acqf (map butlast bounds) 1
             (if py_not SMOKE_TEST then 10 else 2)
             (if py_not SMOKE_TEST then 1024 else 4)
             [(''batch_limit'', 10), (''maxiter'', 200)])
       (\<lambda>(candidate, current_value).
     new_acqf L
       (qMultiFidelityKnowledgeGradient model (if py_not SMOKE_TEST then 128 else 2)
          current_value cost_aware_utility target_fidelities))))"

definition NUM_RESTARTS :: "string option \<Rightarrow> nat" where
  "NUM_RESTARTS SMOKE_TEST = (if py_not SMOKE_TEST then 5 else 2)"

definition RAW_SAMPLES :: "string option \<Rightarrow> nat" where
  "RAW_SAMPLES SMOKE_TEST = (if py_not SMOKE_TEST then 128 else 4)"

definition BATCH_SIZE :: nat where
  "BATCH_SIZE = 4"

text \<open>The two \<^verbatim>\<open>print\<close> calls of the helper show the values it returns and are left out.\<close>

definition optimize_mfkg_and_get_observation ::
  "string option \<Rightarrow> library \<Rightarrow> acqf \<Rightarrow> exn + tensor \<times> tensor \<times> real" where
  "optimize_mfkg_and_get_observation SMOKE_TEST L mfkg_acqf =
     bind (optimize_acqf_mixed L mfkg_acqf bounds [[(6, 0.5)], [(6, 0.75)], [(6, 1.0)]]
             BATCH_SIZE (NUM_RESTARTS SMOKE_TEST) (RAW_SAMPLES SMOKE_TEST)
             [(''batch_limit'', 5), (''maxiter'', 200)])
       (\<lambda>(candidates, acq_values).
     bind (cost_forward L cost_model candidates) (\<lambda>costs.
     (let cost = tensor_sum costs;
          new_x = candidates
      in bind (problem L new_x) (\<lambda>values.
         Inr (new_x, unsqueeze_last values, cost)))))"

record bo_state =
  train_x :: tensor
  train_obj :: tensor
  cumulative_cost :: real
  current_model :: "gp option"


text \<open>
  One turn of the loop \<^verbatim>\<open>for i in range(N_ITER)\<close>, and the loop itself; \<open>Ls i\<close> is the
  library as it answers during turn \<open>i\<close>.
\<close>

definition bo_iteration :: "string option \<Rightarrow> library \<Rightarrow> bo_state \<Rightarrow> exn + bo_state" where
  "bo_iteration SMOKE_TEST L st =
     bind (initialize_model L (train_x st) (train_obj st)) (\<lambda>(mll, model0).
     bind (fit_gpytorch_mll L mll) (\<lambda>mll.
     (let model = model_of mll
      in bind (get_mfkg SMOKE_TEST L model) (\<lambda>mfkg_acqf.
         bind (optimize_mfkg_and_get_observation SMOKE_TEST L mfkg_acqf)
           (\<lambda>(new_x, new_obj, cost).
         bind (torch_cat (train_x st) new_x) (\<lambda>train_x'.
         bind (torch_cat (train_obj st) new_obj) (\<lambda>train_obj'.
         Inr \<lparr>train_x = train_x', train_obj = train_obj',
              cumulative_cost = cumulative_cost st + cost, current_model = Some model\<rparr>)))))))"

fun bo_loop ::
  "(string option \<Rightarrow> library \<Rightarrow> bo_state \<Rightarrow> exn + bo_state)
   \<Rightarrow> string option \<Rightarrow> (nat \<Rightarrow> library) \<Rightarrow> nat \<Rightarrow> bo_state \<Rightarrow> exn + bo_state" where
  "bo_loop body SMOKE_TEST Ls 0 st = Inr st"
| "bo_loop body SMOKE_TEST Ls (Suc i) st =
     bind (bo_loop body SMOKE_TEST Ls i st) (body SMOKE_TEST (Ls i))"

definition get_recommendation :: "library \<Rightarrow> gp \<Rightarrow> exn + tensor" where
  "get_recommendation L model =
     bind (new_acqf L (PosteriorMean model)) (\<lambda>posterior_mean.
     bind (new_acqf L (FixedFeatureAcquisitionFunction posterior_mean 7 [6] [1])) (\<lambda>rec_acqf.
     bind (optimize_acqf L rec_acqf (map butlast bounds) 1 10 512
             [(''batch_limit'', 5), (''maxiter'', 200)])
       (\<lambda>(final_rec, acq_values).
     bind (construct_X_full L rec_acqf final_rec) (\<lambda>final_rec.
     bind (problem L final_rec) (\<lambda>objective_value.
     Inr final_rec)))))"






subsection \<open>Concrete libraries\<close>

text \<open>
  A library in which no call raises, every random number and every point found is 0,
  and the mixed optimiser takes the dictionaries in turn; and a surrogate model
  without data.
\<close>

definition quiet_library :: library where
  "quiet_library =
     \<lparr>raises = (\<lambda>c. None), rand_entry = (\<lambda>i j. 0), randint_entry = (\<lambda>i j. i),
      objective = (\<lambda>x. 0), found = (\<lambda>c i j. 0), chosen = (\<lambda>c i. i), acq_value = (\<lambda>c. 0)\<rparr>"

definition empty_gp :: gp where
  "empty_gp =
     \<lparr>train_X = [], train_Y = [], standardize_m = 1, data_fidelities = [6], fitted = True\<rparr>"


section \<open>The VAE tutorial\<close>

text \<open>
  The functions of \<^verbatim>\<open>tutorials/vae_mnist\<close> work on images and networks, whose values
  play no part here: a Python value is a literal, a global name, an attribute or an
  item of a value, or something opaque the library returned. What the library does is
  the parameter \<open>pylib\<close>: whether a call raises, and what it returns. A computation
  keeps the list of the library calls made so far, each with its arguments, so that
  one can say which call an exception comes from and that none is made after it.
\<close>

datatype pyval =
    PyNone
  | PyBool bool
  | PyInt int
  | PyReal real
  | PyStr string
  | PyList "pyval list"
  | Global string
  | Attr pyval string
  | Item pyval nat
  | Opaque nat


type_synonym pycall = "string \<times> pyval list"

type_synonym 'a py = "pycall list \<Rightarrow> (exn + 'a) \<times> pycall list"

























section \<open>Properties\<close>

lemma split_on_nonempty: "split_on d s \<noteq> []"
  by (induction s) (auto split: list.splits)

lemma split_on_no_delim: "d \<notin> set s \<Longrightarrow> split_on d s = [s]"
  by (induction s) auto

lemma split_on_append:
  "d \<notin> set a \<Longrightarrow> split_on d (a @ d # rest) = a # split_on d rest"
  by (induction a) auto

lemma cut_f12_three_fields:
  assumes "CHR ''.'' \<notin> set a" and "CHR ''.'' \<notin> set b"
  shows "cut_f12 (a @ ''.'' @ b @ ''.'' @ c) = a @ ''.'' @ b"
proof -
  have "split_on (CHR ''.'') (a @ CHR ''.'' # b @ CHR ''.'' # c)
        = a # b # split_on (CHR ''.'') c"
    using assms by (simp add: split_on_append)
  then show ?thesis
    by (simp add: cut_f12_def)
qed

text \<open>
  C1. With a previous tag found, the job output \<^verbatim>\<open>major_minor_changed\<close> is
  \<^verbatim>\<open>true\<close> exactly when the two tags, each cut to its first two dot-separated
  fields and stripped of one leading \<^verbatim>\<open>v\<close>, are different strings. When they are
  equal nothing is written to the output file and the step adds only the warning to
  the progress line it always prints. The last conjunct pins the reduction down on a
  tag of three fields.
\<close>

theorem check_versions_major_minor_changed:
  "(check_versions_output (Some previous_version) tag_name = Some ''true''
      \<longleftrightarrow> major_minor previous_version \<noteq> major_minor tag_name)
   \<and> (major_minor previous_version = major_minor tag_name \<longrightarrow>
        check_versions_output (Some previous_version) tag_name = None
        \<and> github_output (compare_step (Some previous_version) tag_name) = []
        \<and> stdout (compare_step (Some previous_version) tag_name)
            = [updating_line previous_version tag_name, warning_line])
   \<and> (major_minor previous_version \<noteq> major_minor tag_name \<longrightarrow>
        warning_line \<notin> set (stdout (compare_step (Some previous_version) tag_name)))
   \<and> (CHR ''.'' \<notin> set a \<and> CHR ''.'' \<notin> set b \<longrightarrow>
        major_minor (''v'' @ a @ ''.'' @ b @ ''.'' @ c) = a @ ''.'' @ b)"
proof -
  have w: "updating_line previous_version tag_name \<noteq> warning_line"
    by (simp add: updating_line_def warning_line_def)
  have r: "CHR ''.'' \<notin> set a \<and> CHR ''.'' \<notin> set b \<longrightarrow>
        major_minor (''v'' @ a @ ''.'' @ b @ ''.'' @ c) = a @ ''.'' @ b"
  proof
    assume h: "CHR ''.'' \<notin> set a \<and> CHR ''.'' \<notin> set b"
    then have "CHR ''.'' \<notin> set (''v'' @ a)" by simp
    then have "cut_f12 ((''v'' @ a) @ ''.'' @ b @ ''.'' @ c) = (''v'' @ a) @ ''.'' @ b"
      using h by (intro cut_f12_three_fields) auto
    then show "major_minor (''v'' @ a @ ''.'' @ b @ ''.'' @ c) = a @ ''.'' @ b"
      by (simp add: major_minor_def)
  qed
  show ?thesis
    using w r
    by (simp add: check_versions_output_def compare_step_def major_minor_def Let_def)
qed

theorem check_versions_major_minor_changed_witness:
  "major_minor ''v0.13.0'' = major_minor ''v0.13.1''
   \<and> check_versions_output (Some ''v0.13.0'') ''v0.13.1'' = None
   \<and> major_minor ''v0.13.1'' \<noteq> major_minor ''v0.14.0''
   \<and> check_versions_output (Some ''v0.13.1'') ''v0.14.0'' = Some ''true''
   \<and> major_minor ''v0.13.1'' = ''0.13''"
proof -
  have e: "major_minor ''v0.13.0'' = major_minor ''v0.13.1''"
    by (simp add: major_minor_def cut_f12_def)
  have n: "major_minor ''v0.13.1'' \<noteq> major_minor ''v0.14.0''"
    by (simp add: major_minor_def cut_f12_def)
  have d: "CHR ''.'' \<notin> set ''0'' \<and> CHR ''.'' \<notin> set ''13''"
    by simp
  show ?thesis
    using e n d
      check_versions_major_minor_changed
        [of "''v0.13.0''" "''v0.13.1''" "''0''" "''13''" "''1''"]
      check_versions_major_minor_changed
        [of "''v0.13.1''" "''v0.14.0''" "''0''" "''13''" "''1''"]
    by simp
qed
lemma length_run_steps: "length (run_steps w inp rs ss i ok) = length ss"
  by (induction ss arbitrary: i ok) auto

lemma run_steps_cond_false:
  "k < length ss \<Longrightarrow> \<not> cond_holds inp rs (step_if (ss ! k))
   \<Longrightarrow> fst (run_steps w inp rs ss i ok ! k) = Skipped"
proof (induction ss arbitrary: i ok k)
  case Nil
  then show ?case by simp
next
  case (Cons s ss)
  show ?case
  proof (cases k)
    case 0
    with Cons.prems show ?thesis by simp
  next
    case (Suc m)
    with Cons.prems have "m < length ss" "\<not> cond_holds inp rs (step_if (ss ! m))"
      by simp_all
    then have "\<And>i ok. fst (run_steps w inp rs ss i ok ! m) = Skipped"
      using Cons.IH by blast
    with Suc show ?thesis by simp
  qed
qed


lemma steps_conclusion_not_skipped: "steps_conclusion ss rs \<noteq> Skipped"
  by (simp add: steps_conclusion_def)

lemma run_job_skipped_iff:
  "conclusion (run_job w inp rs j) = Skipped
   \<longleftrightarrow> \<not> (needs_met rs j \<and> cond_holds inp rs (job_if j))"
  by (auto simp: run_job_def skipped_job_def Let_def steps_conclusion_not_skipped
      split: body.splits)

lemma release_run_unfold:
  "release_run ok outs d t =
    (let w = release_world ok outs d t;
         r1 = run_job (w ''tests-and-coverage'') no_inputs [] tests_and_coverage;
         rs1 = [(''tests-and-coverage'', r1)];
         r2 = run_job (w ''package-deploy-pypi'') no_inputs rs1 package_deploy_pypi;
         rs2 = rs1 @ [(''package-deploy-pypi'', r2)];
         r3 = run_job (w ''check-versions'') no_inputs rs2 check_versions;
         rs3 = rs2 @ [(''check-versions'', r3)];
         r4 = run_job (w ''version-and-publish-website'') no_inputs rs3 version_and_publish_website
     in rs3 @ [(''version-and-publish-website'', r4)])"
  by (simp add: release_run_def run_workflow_def deploy_on_release_def Let_def
      tests_and_coverage_def package_deploy_pypi_def check_versions_def version_and_publish_website_def)

lemma skipped_job_no_step:
  "i < length (step_outcomes (skipped_job j)) \<Longrightarrow> step_outcomes (skipped_job j) ! i = Skipped"
  by (auto simp: skipped_job_def split: body.splits)

lemma run_job_step_ran:
  assumes "i < length (step_outcomes (run_job w inp rs j))"
    and "step_outcomes (run_job w inp rs j) ! i \<noteq> Skipped"
  shows "needs_met rs j \<and> cond_holds inp rs (job_if j)"
proof (rule ccontr)
  assume "\<not> (needs_met rs j \<and> cond_holds inp rs (job_if j))"
  then have "run_job w inp rs j = skipped_job j"
    by (auto simp: run_job_def)
  with assms skipped_job_no_step show False
    by metis
qed

lemma compare_output_cases:
  "github_output (compare_step d t) = []
   \<or> github_output (compare_step d t) = [(''major_minor_changed'', ''true'')]"
  by (simp add: compare_step_def Let_def split: option.splits)

lemma check_versions_published:
  "needs_output (rs @ [(''check-versions'',
       run_job (release_world ok outs d t ''check-versions'') inp rs' check_versions)])
     ''check-versions'' ''major_minor_changed'' \<in> {[], ''true''}"
  if "map_of rs ''check-versions'' = None"
proof -
  have "map_of (rs @ [(''check-versions'', r)]) ''check-versions'' = Some r" for r
    using that by (simp add: map_add_def)
  then show ?thesis
    using compare_output_cases [of d t]
    by (auto simp: needs_output_def run_job_def skipped_job_def check_versions_def Let_def
        step_output_def plain_step_def release_world_def no_result_def)
qed

lemma str_eq_nocase_true: "v \<in> {[], ''true''} \<Longrightarrow> str_eq_nocase v ''true'' \<longleftrightarrow> v = ''true''"
  by (auto simp: str_eq_nocase_def lower_char_def)

lemma release_run_results:
  obtains r1 r2 r3 r4 where
    "release_run ok outs d t =
       [(''tests-and-coverage'', r1), (''package-deploy-pypi'', r2),
        (''check-versions'', r3), (''version-and-publish-website'', r4)]"
    and "r1 = run_job (release_world ok outs d t ''tests-and-coverage'') no_inputs []
               tests_and_coverage"
    and "r2 = run_job (release_world ok outs d t ''package-deploy-pypi'') no_inputs
               [(''tests-and-coverage'', r1)] package_deploy_pypi"
    and "r3 = run_job (release_world ok outs d t ''check-versions'') no_inputs
               [(''tests-and-coverage'', r1), (''package-deploy-pypi'', r2)] check_versions"
    and "r4 = run_job (release_world ok outs d t ''version-and-publish-website'') no_inputs
               [(''tests-and-coverage'', r1), (''package-deploy-pypi'', r2),
                (''check-versions'', r3)] version_and_publish_website"
  using that by (simp add: release_run_unfold Let_def)

lemma release_run_chain:
  "job_ran (release_run ok outs d t) ''tests-and-coverage''"
  "job_ran (release_run ok outs d t) ''package-deploy-pypi''
     \<longleftrightarrow> job_succeeded (release_run ok outs d t) ''tests-and-coverage''"
  "job_ran (release_run ok outs d t) ''check-versions''
     \<longleftrightarrow> job_succeeded (release_run ok outs d t) ''package-deploy-pypi''"
  "job_ran (release_run ok outs d t) ''version-and-publish-website''
     \<longleftrightarrow> job_succeeded (release_run ok outs d t) ''check-versions''
         \<and> needs_output (release_run ok outs d t) ''check-versions'' ''major_minor_changed''
             = ''true''"
proof -
  obtain r1 r2 r3 r4 where
    R: "release_run ok outs d t =
       [(''tests-and-coverage'', r1), (''package-deploy-pypi'', r2),
        (''check-versions'', r3), (''version-and-publish-website'', r4)]"
    and r1: "r1 = run_job (release_world ok outs d t ''tests-and-coverage'') no_inputs []
               tests_and_coverage"
    and r2: "r2 = run_job (release_world ok outs d t ''package-deploy-pypi'') no_inputs
               [(''tests-and-coverage'', r1)] package_deploy_pypi"
    and r3: "r3 = run_job (release_world ok outs d t ''check-versions'') no_inputs
               [(''tests-and-coverage'', r1), (''package-deploy-pypi'', r2)] check_versions"
    and r4: "r4 = run_job (release_world ok outs d t ''version-and-publish-website'') no_inputs
               [(''tests-and-coverage'', r1), (''package-deploy-pypi'', r2),
                (''check-versions'', r3)] version_and_publish_website"
    by (rule release_run_results)
  have res: "result_of (release_run ok outs d t) ''tests-and-coverage'' = r1"
    "result_of (release_run ok outs d t) ''package-deploy-pypi'' = r2"
    "result_of (release_run ok outs d t) ''check-versions'' = r3"
    "result_of (release_run ok outs d t) ''version-and-publish-website'' = r4"
    by (simp_all add: R result_of_def)
  have c1: "conclusion r1 \<noteq> Skipped"
    by (simp add: r1 run_job_skipped_iff needs_met_def cond_holds_def tests_and_coverage_def)
  have c2: "conclusion r2 \<noteq> Skipped \<longleftrightarrow> conclusion r1 = Success"
    by (simp add: r2 run_job_skipped_iff needs_met_def cond_holds_def package_deploy_pypi_def)
  have c3: "conclusion r3 \<noteq> Skipped \<longleftrightarrow> conclusion r2 = Success"
    by (simp add: r3 run_job_skipped_iff needs_met_def cond_holds_def check_versions_def)
  have "needs_output ([(''tests-and-coverage'', r1), (''package-deploy-pypi'', r2)]
            @ [(''check-versions'', r3)]) ''check-versions'' ''major_minor_changed''
          \<in> {[], ''true''}"
    unfolding r3 by (rule check_versions_published) simp
  then have out: "needs_output [(''tests-and-coverage'', r1), (''package-deploy-pypi'', r2),
       (''check-versions'', r3)] ''check-versions'' ''major_minor_changed'' \<in> {[], ''true''}"
    by simp
  have same: "needs_output (release_run ok outs d t) ''check-versions'' ''major_minor_changed''
      = needs_output [(''tests-and-coverage'', r1), (''package-deploy-pypi'', r2),
          (''check-versions'', r3)] ''check-versions'' ''major_minor_changed''"
    by (simp add: R needs_output_def)
  have c4: "conclusion r4 \<noteq> Skipped \<longleftrightarrow>
      conclusion r3 = Success
      \<and> needs_output [(''tests-and-coverage'', r1), (''package-deploy-pypi'', r2),
          (''check-versions'', r3)] ''check-versions'' ''major_minor_changed'' = ''true''"
    using str_eq_nocase_true [OF out]
    by (simp add: r4 run_job_skipped_iff needs_met_def cond_holds_def
        version_and_publish_website_def)
  show "job_ran (release_run ok outs d t) ''tests-and-coverage''"
    using c1 by (simp add: job_ran_def res)
  show "job_ran (release_run ok outs d t) ''package-deploy-pypi''
     \<longleftrightarrow> job_succeeded (release_run ok outs d t) ''tests-and-coverage''"
    using c2 by (simp add: job_ran_def job_succeeded_def res)
  show "job_ran (release_run ok outs d t) ''check-versions''
     \<longleftrightarrow> job_succeeded (release_run ok outs d t) ''package-deploy-pypi''"
    using c3 by (simp add: job_ran_def job_succeeded_def res)
  show "job_ran (release_run ok outs d t) ''version-and-publish-website''
     \<longleftrightarrow> job_succeeded (release_run ok outs d t) ''check-versions''
         \<and> needs_output (release_run ok outs d t) ''check-versions'' ''major_minor_changed''
             = ''true''"
    using c4 same by (simp add: job_ran_def job_succeeded_def res)
qed

lemma pypi_step_needs_tests:
  assumes "step_ran (release_run ok outs d t) ''package-deploy-pypi'' i"
  shows "job_succeeded (release_run ok outs d t) ''tests-and-coverage''"
proof -
  obtain r1 r2 r3 r4 where
    R: "release_run ok outs d t =
       [(''tests-and-coverage'', r1), (''package-deploy-pypi'', r2),
        (''check-versions'', r3), (''version-and-publish-website'', r4)]"
    and r2: "r2 = run_job (release_world ok outs d t ''package-deploy-pypi'') no_inputs
               [(''tests-and-coverage'', r1)] package_deploy_pypi"
    by (rule release_run_results)
  have res: "result_of (release_run ok outs d t) ''tests-and-coverage'' = r1"
    "result_of (release_run ok outs d t) ''package-deploy-pypi'' = r2"
    by (simp_all add: R result_of_def)
  from assms have "i < length (step_outcomes r2)" "step_outcomes r2 ! i \<noteq> Skipped"
    by (simp_all add: step_ran_def res)
  then have "needs_met [(''tests-and-coverage'', r1)] package_deploy_pypi"
    unfolding r2 using run_job_step_ran by blast
  then show ?thesis
    by (simp add: needs_met_def package_deploy_pypi_def job_succeeded_def res)
qed

text \<open>
  C3. In every release run, whatever the steps do: \<^verbatim>\<open>package-deploy-pypi\<close> runs
  exactly when \<^verbatim>\<open>tests-and-coverage\<close> succeeded, \<^verbatim>\<open>check-versions\<close> exactly when
  \<^verbatim>\<open>package-deploy-pypi\<close> succeeded, and \<^verbatim>\<open>version-and-publish-website\<close> exactly when
  \<^verbatim>\<open>check-versions\<close> succeeded and published \<^verbatim>\<open>major_minor_changed\<close> as the string
  \<^verbatim>\<open>true\<close>. The step that deploys to PyPI (step 7 of its job) runs only when the test
  job succeeded. The order comes from \<^verbatim>\<open>needs\<close> alone: the last two conjuncts list
  every job's \<^verbatim>\<open>needs\<close> and \<^verbatim>\<open>if\<close>, and only the last job has a condition.
\<close>

theorem deploy_on_release_ordering:
  "(job_ran (release_run ok outs d t) ''package-deploy-pypi''
        \<longleftrightarrow> job_succeeded (release_run ok outs d t) ''tests-and-coverage'')
   \<and> (job_ran (release_run ok outs d t) ''check-versions''
        \<longleftrightarrow> job_succeeded (release_run ok outs d t) ''package-deploy-pypi'')
   \<and> (job_ran (release_run ok outs d t) ''version-and-publish-website''
        \<longleftrightarrow> job_succeeded (release_run ok outs d t) ''check-versions''
            \<and> needs_output (release_run ok outs d t) ''check-versions'' ''major_minor_changed''
                = ''true'')
   \<and> (step_ran (release_run ok outs d t) ''package-deploy-pypi'' 7
        \<longrightarrow> job_succeeded (release_run ok outs d t) ''tests-and-coverage'')
   \<and> step_name (steps_of package_deploy_pypi ! 7) = ''Deploy to PyPI''
   \<and> map job_needs deploy_on_release
        = [[], [''tests-and-coverage''], [''package-deploy-pypi''], [''check-versions'']]
   \<and> map job_if deploy_on_release
        = [None, None, None,
           Some (NeedsOutputEq ''check-versions'' ''major_minor_changed'' ''true'')]"
proof -
  have f: "step_name (steps_of package_deploy_pypi ! 7) = ''Deploy to PyPI''"
    "map job_needs deploy_on_release
        = [[], [''tests-and-coverage''], [''package-deploy-pypi''], [''check-versions'']]"
    "map job_if deploy_on_release
        = [None, None, None,
           Some (NeedsOutputEq ''check-versions'' ''major_minor_changed'' ''true'')]"
    by (simp_all add: deploy_on_release_def tests_and_coverage_def package_deploy_pypi_def
        check_versions_def version_and_publish_website_def steps_of_def plain_step_def)
  show ?thesis
    using release_run_chain [of ok outs d t] pypi_step_needs_tests [of ok outs d t 7] f
    by blast
qed

theorem deploy_on_release_ordering_witness:
  "step_ran (release_run (\<lambda>j i. True) (\<lambda>j i. []) (Some ''v0.13.1'') ''v0.14.0'')
      ''package-deploy-pypi'' 7
   \<and> job_succeeded (release_run (\<lambda>j i. True) (\<lambda>j i. []) (Some ''v0.13.1'') ''v0.14.0'')
      ''tests-and-coverage''
   \<and> job_ran (release_run (\<lambda>j i. True) (\<lambda>j i. []) (Some ''v0.13.1'') ''v0.14.0'')
      ''version-and-publish-website''
   \<and> needs_output (release_run (\<lambda>j i. True) (\<lambda>j i. []) (Some ''v0.13.1'') ''v0.14.0'')
      ''check-versions'' ''major_minor_changed'' = ''true''
   \<and> \<not> job_succeeded
        (release_run (\<lambda>j i. j \<noteq> ''tests-and-coverage'') (\<lambda>j i. []) (Some ''v0.13.1'') ''v0.14.0'')
        ''tests-and-coverage''
   \<and> \<not> job_ran
        (release_run (\<lambda>j i. j \<noteq> ''tests-and-coverage'') (\<lambda>j i. []) (Some ''v0.13.1'') ''v0.14.0'')
        ''package-deploy-pypi''"
proof -
  have a: "step_ran (release_run (\<lambda>j i. True) (\<lambda>j i. []) (Some ''v0.13.1'') ''v0.14.0'')
      ''package-deploy-pypi'' 7"
    by code_simp
  have b: "job_ran (release_run (\<lambda>j i. True) (\<lambda>j i. []) (Some ''v0.13.1'') ''v0.14.0'')
      ''version-and-publish-website''"
    by code_simp
  have c: "\<not> job_succeeded
        (release_run (\<lambda>j i. j \<noteq> ''tests-and-coverage'') (\<lambda>j i. []) (Some ''v0.13.1'') ''v0.14.0'')
        ''tests-and-coverage''"
    by code_simp
  show ?thesis
    using a b c
      deploy_on_release_ordering
        [of "\<lambda>j i. True" "\<lambda>j i. []" "Some ''v0.13.1''" "''v0.14.0''"]
      deploy_on_release_ordering
        [of "\<lambda>j i. j \<noteq> ''tests-and-coverage''" "\<lambda>j i. []" "Some ''v0.13.1''" "''v0.14.0''"]
    by blast
qed

lemma publish_run_results:
  obtains r1 r2 where
    "run_workflow world inp publish_website = [(''build-website'', r1), (''deploy-website'', r2)]"
    and "r1 = run_job (world ''build-website'') inp [] build_website"
    and "r2 = run_job (world ''deploy-website'') inp [(''build-website'', r1)] deploy_website"
  using that
  by (simp add: run_workflow_def publish_website_def build_website_def deploy_website_def)

lemma build_website_create_step:
  assumes "step_ran (run_workflow world inp publish_website) ''build-website'' 7"
  shows "truthy (inp ''new_version'') \<and> \<not> truthy (inp ''dry_run'')"
proof -
  obtain r1 r2 where
    R: "run_workflow world inp publish_website
          = [(''build-website'', r1), (''deploy-website'', r2)]"
    and r1: "r1 = run_job (world ''build-website'') inp [] build_website"
    by (rule publish_run_results)
  have res: "result_of (run_workflow world inp publish_website) ''build-website'' = r1"
    by (simp add: R result_of_def)
  obtain ss where ss: "job_body build_website = Steps ss" "length ss = 10"
    "step_if (ss ! 7) = Some (And (Input ''new_version'') (Not (Input ''dry_run'')))"
    by (simp add: build_website_def plain_step_def)
  have run: "r1 = \<lparr>conclusion = steps_conclusion ss (run_steps (world ''build-website'') inp [] ss 0 True),
       outputs = [],
       step_outcomes = map fst (run_steps (world ''build-website'') inp [] ss 0 True)\<rparr>"
    using ss(1) by (simp add: r1 run_job_def needs_met_def cond_holds_def build_website_def Let_def)
  from assms have "fst (run_steps (world ''build-website'') inp [] ss 0 True ! 7) \<noteq> Skipped"
    by (simp add: step_ran_def res run length_run_steps ss(2))
  then have "cond_holds inp [] (step_if (ss ! 7))"
    using run_steps_cond_false [of 7 ss inp "[]"] ss(2) by auto
  then show ?thesis
    by (simp add: ss(3) cond_holds_def Let_def split: if_splits)
qed

lemma deploy_website_needs:
  assumes "job_ran (run_workflow world inp publish_website) ''deploy-website''"
  shows "\<not> truthy (inp ''dry_run'')
         \<and> job_succeeded (run_workflow world inp publish_website) ''build-website''"
proof -
  obtain r1 r2 where
    R: "run_workflow world inp publish_website
          = [(''build-website'', r1), (''deploy-website'', r2)]"
    and r2: "r2 = run_job (world ''deploy-website'') inp [(''build-website'', r1)] deploy_website"
    by (rule publish_run_results)
  have res: "result_of (run_workflow world inp publish_website) ''build-website'' = r1"
    "result_of (run_workflow world inp publish_website) ''deploy-website'' = r2"
    by (simp_all add: R result_of_def)
  from assms have "conclusion r2 \<noteq> Skipped"
    by (simp add: job_ran_def res)
  then have "needs_met [(''build-website'', r1)] deploy_website"
    "cond_holds inp [(''build-website'', r1)] (job_if deploy_website)"
    by (simp_all add: r2 run_job_skipped_iff)
  then show ?thesis
    by (simp add: needs_met_def cond_holds_def deploy_website_def job_succeeded_def res)
qed

lemma deploy_website_step:
  assumes "step_ran (run_workflow world inp publish_website) ''deploy-website'' i"
  shows "job_ran (run_workflow world inp publish_website) ''deploy-website''"
proof -
  obtain r1 r2 where
    R: "run_workflow world inp publish_website
          = [(''build-website'', r1), (''deploy-website'', r2)]"
    and r2: "r2 = run_job (world ''deploy-website'') inp [(''build-website'', r1)] deploy_website"
    by (rule publish_run_results)
  have res: "result_of (run_workflow world inp publish_website) ''deploy-website'' = r2"
    by (simp add: R result_of_def)
  from assms have "i < length (step_outcomes r2)" "step_outcomes r2 ! i \<noteq> Skipped"
    by (simp_all add: step_ran_def res)
  then have "needs_met [(''build-website'', r1)] deploy_website
      \<and> cond_holds inp [(''build-website'', r1)] (job_if deploy_website)"
    unfolding r2 using run_job_step_ran by blast
  then have "conclusion r2 \<noteq> Skipped"
    by (simp add: r2 run_job_skipped_iff)
  then show ?thesis
    by (simp add: job_ran_def res)
qed

lemma pushing_steps_publish:
  "pushing_steps publish_website = [(''build-website'', ''Create new docusaurus version'')]"
  by code_simp

text \<open>
  C2. In every run of Publish Website with \<^verbatim>\<open>dry_run\<close> true, whatever the steps do, the
  step \<^verbatim>\<open>Create new docusaurus version\<close> (step 7 of \<^verbatim>\<open>build-website\<close>) is not
  executed and the job \<^verbatim>\<open>deploy-website\<close> and its step do not run. In any run where
  that step is executed, \<^verbatim>\<open>new_version\<close> is non-empty and \<^verbatim>\<open>dry_run\<close> is false. It is
  the only step of the workflow whose script contains \<^verbatim>\<open>git push\<close>.
\<close>

theorem publish_website_dry_run:
  "\<not> step_ran (run_workflow world (publish_inputs new_version run_tutorials True) publish_website)
        ''build-website'' 7
   \<and> \<not> job_ran (run_workflow world (publish_inputs new_version run_tutorials True) publish_website)
        ''deploy-website''
   \<and> \<not> step_ran (run_workflow world (publish_inputs new_version run_tutorials True) publish_website)
        ''deploy-website'' 0
   \<and> (step_ran (run_workflow world (publish_inputs new_version run_tutorials dry_run)
          publish_website) ''build-website'' 7
        \<longrightarrow> new_version \<noteq> [] \<and> \<not> dry_run)
   \<and> step_name (steps_of build_website ! 7) = ''Create new docusaurus version''
   \<and> pushing_steps publish_website = [(''build-website'', ''Create new docusaurus version'')]"
proof -
  have n: "step_name (steps_of build_website ! 7) = ''Create new docusaurus version''"
    by (simp add: build_website_def steps_of_def plain_step_def)
  show ?thesis
    using build_website_create_step
        [of world "publish_inputs new_version run_tutorials True"]
      build_website_create_step
        [of world "publish_inputs new_version run_tutorials dry_run"]
      deploy_website_needs [of world "publish_inputs new_version run_tutorials True"]
      deploy_website_step [of world "publish_inputs new_version run_tutorials True" 0]
      n pushing_steps_publish
    by (auto simp: publish_inputs_def)
qed

theorem publish_website_dry_run_witness:
  "step_ran (run_workflow (\<lambda>j i. \<lparr>exit_ok = True, stdout = [], github_output = []\<rparr>)
       (publish_inputs ''v0.14.0'' False False) publish_website) ''build-website'' 7
   \<and> ''v0.14.0'' \<noteq> []
   \<and> \<not> step_ran (run_workflow (\<lambda>j i. \<lparr>exit_ok = True, stdout = [], github_output = []\<rparr>)
       (publish_inputs ''v0.14.0'' False True) publish_website) ''build-website'' 7"
proof -
  have a: "step_ran (run_workflow (\<lambda>j i. \<lparr>exit_ok = True, stdout = [], github_output = []\<rparr>)
       (publish_inputs ''v0.14.0'' False False) publish_website) ''build-website'' 7"
    by code_simp
  show ?thesis
    using a
      publish_website_dry_run
        [of "\<lambda>j i. \<lparr>exit_ok = True, stdout = [], github_output = []\<rparr>" "''v0.14.0''"
          False False]
    by blast
qed

text \<open>
  C10. Publishing version v1.2.4 on the site \<open>two_versions\<close>: the step succeeds and
  removes the directory, the sidebar file and the line of version 1.2.3, which shares
  the major.minor 1.2. It leaves the directory and the sidebar file of version 112.3,
  yet it also deletes the line of 112.3 from \<^verbatim>\<open>versions.json\<close>, because the dots of
  1.2.3 are read as wildcards; the major.minor of 112.3 is not that of v1.2.4.
\<close>

theorem delete_similar_versions_other_line_deleted:
  "delete_similar_versions ''v1.2.4'' two_versions =
     (True,
      \<lparr>versioned_docs = [(''version-112.3'', True)],
       versioned_sidebars = [''version-112.3-sidebars.json''],
       versions_json = [''['', '']'']\<rparr>)
   \<and> ''  '' @ quoted ''112.3'' \<in> set (versions_json two_versions)
   \<and> major_minor ''112.3'' \<noteq> major_minor ''v1.2.4''"
  by (simp add: delete_similar_versions_def two_versions_def glob_matches_def quoted_def
      major_minor_def cut_f12_def)

lemma bind_Inr_iff: "bind m f = Inr r \<longleftrightarrow> (\<exists>v. m = Inr v \<and> f v = Inr r)"
  by (cases m) (simp_all add: bind_def)


lemma lib_Inr_iff: "lib L c v = Inr r \<longleftrightarrow> raises L c = None \<and> r = v"
  by (auto simp: lib_def split: option.splits)

lemma lib_Inl_iff: "lib L c v = Inl e \<longleftrightarrow> raises L c = Some e"
  by (auto simp: lib_def split: option.splits)

lemma ncols_bounds: "ncols bounds = 7" "ncols (map butlast bounds) = 6"
  by (simp_all add: ncols_def bounds_def problem_dim_def butlast_conv_take)

lemma fix_single: "fix_features [(k, v)] x = x[k := v]"
  by (simp add: fix_features_def)

lemma optimize_acqf_mixed_rows:
  assumes "optimize_acqf_mixed L acq bnds ffl q nr rs opts = Inr (X, a)"
  shows "length X = q"
    and "\<forall>x \<in> set X. \<exists>ff \<in> set ffl. \<exists>y. length y = ncols bnds \<and> x = fix_features ff y"
proof -
  from assms have ne: "ffl \<noteq> []"
    by (auto simp: optimize_acqf_mixed_def Let_def)
  with assms have X: "X = map (\<lambda>i. fix_features
        (ffl ! (chosen L (OptimizeAcqfMixed acq bnds ffl q nr rs opts) i mod length ffl))
        (map (\<lambda>j. found L (OptimizeAcqfMixed acq bnds ffl q nr rs opts) i j) [0..<ncols bnds]))
      [0..<q]"
    by (auto simp: optimize_acqf_mixed_def Let_def lib_Inr_iff)
  show "length X = q"
    by (simp add: X)
  show "\<forall>x \<in> set X. \<exists>ff \<in> set ffl. \<exists>y. length y = ncols bnds \<and> x = fix_features ff y"
  proof
    fix x assume "x \<in> set X"
    then obtain i where x: "x = fix_features
        (ffl ! (chosen L (OptimizeAcqfMixed acq bnds ffl q nr rs opts) i mod length ffl))
        (map (\<lambda>j. found L (OptimizeAcqfMixed acq bnds ffl q nr rs opts) i j) [0..<ncols bnds])"
      by (auto simp: X)
    have "ffl ! (chosen L (OptimizeAcqfMixed acq bnds ffl q nr rs opts) i mod length ffl)
        \<in> set ffl"
      using ne by simp
    then show "\<exists>ff \<in> set ffl. \<exists>y. length y = ncols bnds \<and> x = fix_features ff y"
      using x by (metis length_map length_upt minus_nat.diff_0)
  qed
qed

lemma mfkg_observation_parts:
  assumes "optimize_mfkg_and_get_observation S L acq = Inr (new_x, new_obj, cost)"
  obtains a costs vals where
    "optimize_acqf_mixed L acq bounds [[(6, 0.5)], [(6, 0.75)], [(6, 1.0)]] BATCH_SIZE
       (NUM_RESTARTS S) (RAW_SAMPLES S) [(''batch_limit'', 5), (''maxiter'', 200)]
     = Inr (new_x, a)"
    and "cost_forward L cost_model new_x = Inr costs"
    and "cost = tensor_sum costs"
    and "problem L new_x = Inr vals"
    and "new_obj = unsqueeze_last vals"
  using assms
  by (auto simp: optimize_mfkg_and_get_observation_def bind_Inr_iff Let_def)

lemma mfkg_observation_rows:
  assumes "optimize_mfkg_and_get_observation S L acq = Inr (new_x, new_obj, cost)"
  shows "\<forall>x \<in> set new_x. length x = 7 \<and> (x ! 6 = 0.5 \<or> x ! 6 = 0.75 \<or> x ! 6 = 1.0)"
proof
  fix x assume x: "x \<in> set new_x"
  from assms obtain a where
    "optimize_acqf_mixed L acq bounds [[(6, 0.5)], [(6, 0.75)], [(6, 1.0)]] BATCH_SIZE
       (NUM_RESTARTS S) (RAW_SAMPLES S) [(''batch_limit'', 5), (''maxiter'', 200)]
     = Inr (new_x, a)"
    by (rule mfkg_observation_parts)
  from optimize_acqf_mixed_rows(2) [OF this] x
  have "\<exists>ff \<in> set [[(6, 0.5)], [(6, 0.75)], [(6, 1.0::real)]].
          \<exists>y. length y = ncols bounds \<and> x = fix_features ff y"
    by blast
  then obtain ff y where "ff \<in> set [[(6, 0.5)], [(6, 0.75)], [(6, 1.0::real)]]"
    "length y = 7" "x = fix_features ff y"
    unfolding ncols_bounds by blast
  then show "length x = 7 \<and> (x ! 6 = 0.5 \<or> x ! 6 = 0.75 \<or> x ! 6 = 1.0)"
    by (auto simp: fix_single)
qed

lemma row_cost_cost_model: "row_cost cost_model x = 0.25 + x ! 6"
  by (simp add: row_cost_def cost_model_def AffineFidelityCostModel_def)

lemma tensor_sum_costs:
  "tensor_sum (map (\<lambda>x. [row_cost cost_model x]) X)
     = 0.25 * real (length X) + sum_list (map (\<lambda>x. x ! 6) X)"
  by (induction X) (simp_all add: tensor_sum_def row_cost_cost_model algebra_simps)

lemma cost_forward_sum:
  assumes "cost_forward L cost_model X = Inr C"
  shows "tensor_sum C = 0.25 * real (length X) + sum_list (map (\<lambda>x. x ! 6) X)"
    and "\<forall>x \<in> set X. 6 < length x"
proof -
  from assms have ok: "list_all (\<lambda>x. list_all (\<lambda>(k, w). k < length x) (fidelity_weights cost_model)) X"
    and C: "C = map (\<lambda>x. [row_cost cost_model x]) X"
    by (auto simp: cost_forward_def lib_Inr_iff split: if_splits)
  show "tensor_sum C = 0.25 * real (length X) + sum_list (map (\<lambda>x. x ! 6) X)"
    by (simp add: C tensor_sum_costs)
  show "\<forall>x \<in> set X. 6 < length x"
    using ok by (simp add: list_all_iff cost_model_def AffineFidelityCostModel_def)
qed

text \<open>
  C6. The cost model of the notebook gives a single candidate \<open>x\<close> the cost
  \<open>0.25 + x[6]\<close> (and needs the row to have a column 6); a batch costs 0.25 for each
  row plus the sum of its fidelity values; and the cost that
  \<open>optimize_mfkg_and_get_observation\<close> returns for its batch of \<open>BATCH_SIZE\<close> candidates is
  0.25 times \<open>BATCH_SIZE\<close> plus the sum of the candidates' fidelity values.
\<close>

theorem mfkg_cost:
  "(cost_forward L cost_model [x] = Inr C \<longrightarrow> C = [[0.25 + x ! 6]] \<and> 6 < length x)
   \<and> (cost_forward L cost_model X = Inr C'
        \<longrightarrow> tensor_sum C' = 0.25 * real (length X) + sum_list (map (\<lambda>x. x ! 6) X))
   \<and> (optimize_mfkg_and_get_observation S L acq = Inr (new_x, new_obj, cost)
        \<longrightarrow> length new_x = BATCH_SIZE
            \<and> cost = 0.25 * real BATCH_SIZE + sum_list (map (\<lambda>x. x ! 6) new_x))"
proof -
  have a: "cost_forward L cost_model [x] = Inr C \<longrightarrow> C = [[0.25 + x ! 6]] \<and> 6 < length x"
    by (auto simp: cost_forward_def lib_Inr_iff row_cost_def cost_model_def
        AffineFidelityCostModel_def split: if_splits)
  have b: "cost_forward L cost_model X = Inr C'
        \<longrightarrow> tensor_sum C' = 0.25 * real (length X) + sum_list (map (\<lambda>x. x ! 6) X)"
    using cost_forward_sum(1) by blast
  have c: "optimize_mfkg_and_get_observation S L acq = Inr (new_x, new_obj, cost)
        \<longrightarrow> length new_x = BATCH_SIZE
            \<and> cost = 0.25 * real BATCH_SIZE + sum_list (map (\<lambda>x. x ! 6) new_x)"
  proof
    assume h: "optimize_mfkg_and_get_observation S L acq = Inr (new_x, new_obj, cost)"
    then obtain a costs where
      m: "optimize_acqf_mixed L acq bounds [[(6, 0.5)], [(6, 0.75)], [(6, 1.0)]] BATCH_SIZE
         (NUM_RESTARTS S) (RAW_SAMPLES S) [(''batch_limit'', 5), (''maxiter'', 200)]
       = Inr (new_x, a)"
      and cf: "cost_forward L cost_model new_x = Inr costs"
      and cost: "cost = tensor_sum costs"
      by (rule mfkg_observation_parts)
    have len: "length new_x = BATCH_SIZE"
      using optimize_acqf_mixed_rows(1) [OF m] .
    show "length new_x = BATCH_SIZE
            \<and> cost = 0.25 * real BATCH_SIZE + sum_list (map (\<lambda>x. x ! 6) new_x)"
      using len cost cost_forward_sum(1) [OF cf] by simp
  qed
  from a b c show ?thesis by blast
qed


theorem mfkg_cost_witness:
  "optimize_mfkg_and_get_observation None quiet_library (PosteriorMean empty_gp)
     = Inr ([[0, 0, 0, 0, 0, 0, 0.5], [0, 0, 0, 0, 0, 0, 0.75], [0, 0, 0, 0, 0, 0, 1],
             [0, 0, 0, 0, 0, 0, 0.5]], [[0], [0], [0], [0]], 3.75)
   \<and> (3.75::real) = 0.25 * real BATCH_SIZE
        + sum_list (map (\<lambda>x. x ! 6)
            [[0, 0, 0, 0, 0, 0, 0.5], [0, 0, 0, 0, 0, 0, 0.75], [0, 0, 0, 0, 0, 0, 1],
             [0, 0, 0, 0, 0, 0, 0.5::real]])"
proof -
  have e: "optimize_mfkg_and_get_observation None quiet_library (PosteriorMean empty_gp)
     = Inr ([[0, 0, 0, 0, 0, 0, 0.5], [0, 0, 0, 0, 0, 0, 0.75], [0, 0, 0, 0, 0, 0, 1],
             [0, 0, 0, 0, 0, 0, 0.5]], [[0], [0], [0], [0]], 3.75)"
    by code_simp
  show ?thesis
    using e
      mfkg_cost [where L = quiet_library and S = None and acq = "PosteriorMean empty_gp"
        and new_x = "[[0, 0, 0, 0, 0, 0, 0.5], [0, 0, 0, 0, 0, 0, 0.75], [0, 0, 0, 0, 0, 0, 1],
          [0, 0, 0, 0, 0, 0, 0.5]]" and new_obj = "[[0], [0], [0], [0]]" and cost = "3.75"]
    by blast
qed

text \<open>
  C8. Every candidate row that \<open>optimize_mfkg_and_get_observation\<close> returns has seven
  columns and its fidelity coordinate (index 6) is 0.5, 0.75 or 1.0.
\<close>

theorem mfkg_candidates_fidelity:
  assumes "optimize_mfkg_and_get_observation S L acq = Inr (new_x, new_obj, cost)"
  shows "\<forall>x \<in> set new_x. length x = 7 \<and> (x ! 6 = 0.5 \<or> x ! 6 = 0.75 \<or> x ! 6 = 1.0)"
  using assms by (rule mfkg_observation_rows)

theorem mfkg_candidates_fidelity_witness:
  "optimize_mfkg_and_get_observation None quiet_library (PosteriorMean empty_gp)
     = Inr ([[0, 0, 0, 0, 0, 0, 0.5], [0, 0, 0, 0, 0, 0, 0.75], [0, 0, 0, 0, 0, 0, 1],
             [0, 0, 0, 0, 0, 0, 0.5]], [[0], [0], [0], [0]], 3.75)
   \<and> list_all (\<lambda>x. length x = 7 \<and> (x ! 6 = 0.5 \<or> x ! 6 = 0.75 \<or> x ! 6 = 1.0))
         [[0, 0, 0, 0, 0, 0, 0.5], [0, 0, 0, 0, 0, 0, 0.75], [0, 0, 0, 0, 0, 0, 1],
          [0, 0, 0, 0, 0, 0, 0.5::real]]"
proof -
  have e: "optimize_mfkg_and_get_observation None quiet_library (PosteriorMean empty_gp)
     = Inr ([[0, 0, 0, 0, 0, 0, 0.5], [0, 0, 0, 0, 0, 0, 0.75], [0, 0, 0, 0, 0, 0, 1],
             [0, 0, 0, 0, 0, 0, 0.5]], [[0], [0], [0], [0]], 3.75)"
    by code_simp
  from e mfkg_candidates_fidelity [OF e] show ?thesis
    unfolding list_all_iff by (rule conjI)
qed


lemma construct_row_last:
  assumes "length x = 6"
  shows "construct_row 7 0 (zip [6] [v]) x = x @ [v]"
proof -
  from assms obtain a b c d e f where "x = [a, b, c, d, e, f]"
    by (auto simp: eval_nat_numeral length_Suc_conv)
  then show ?thesis
    by (simp add: eval_nat_numeral)
qed

lemma optimize_acqf_rows:
  assumes "optimize_acqf L acq bnds q nr rs opts = Inr (X, a)"
  shows "length X = q" and "\<forall>x \<in> set X. length x = ncols bnds"
  using assms by (auto simp: optimize_acqf_def Let_def lib_Inr_iff)

lemma length_one: "length X = 1 \<Longrightarrow> \<exists>x. X = [x]"
  by (cases X) auto

text \<open>
  C9. When \<open>get_recommendation\<close> returns, its result is one row of seven columns: the
  point of six coordinates that \<open>optimize_acqf\<close> found for the posterior mean with
  column 6 of 7 fixed to 1, over \<open>bounds\<close> without its last column, followed by the
  target fidelity 1 in column 6.
\<close>

theorem recommendation_at_target_fidelity:
  assumes "get_recommendation L m = Inr final_rec"
  shows "(\<exists>x a. optimize_acqf L (FixedFeatureAcquisitionFunction (PosteriorMean m) 7 [6] [1])
                 (map butlast bounds) 1 10 512 [(''batch_limit'', 5), (''maxiter'', 200)]
               = Inr ([x], a)
             \<and> length x = 6 \<and> final_rec = [x @ [1]] \<and> (x @ [1]) ! 6 = 1)
         \<and> map butlast bounds = [replicate 6 0, replicate 6 1]"
proof -
  from assms obtain X a where
    opt: "optimize_acqf L (FixedFeatureAcquisitionFunction (PosteriorMean m) 7 [6] [1])
            (map butlast bounds) 1 10 512 [(''batch_limit'', 5), (''maxiter'', 200)]
          = Inr (X, a)"
    and full: "construct_X_full L (FixedFeatureAcquisitionFunction (PosteriorMean m) 7 [6] [1]) X
          = Inr final_rec"
    by (auto simp: get_recommendation_def bind_Inr_iff new_acqf_def lib_Inr_iff)
  from optimize_acqf_rows [OF opt] obtain x where X: "X = [x]" and x: "length x = 6"
    using length_one by (auto simp: ncols_bounds)
  from full have "final_rec = [construct_row 7 0 (zip [6] [1]) x]"
    by (auto simp: construct_X_full_def lib_Inr_iff X split: if_splits)
  then have r: "final_rec = [x @ [1]]"
    by (simp only: construct_row_last [OF x])
  have l: "(x @ [1]) ! 6 = (1::real)"
    using x by (simp add: nth_append)
  have b: "map butlast bounds = [replicate 6 0, replicate 6 1]"
    by (simp add: bounds_def problem_dim_def butlast_conv_take)
  from opt have "optimize_acqf L (FixedFeatureAcquisitionFunction (PosteriorMean m) 7 [6] [1])
         (map butlast bounds) 1 10 512 [(''batch_limit'', 5), (''maxiter'', 200)]
       = Inr ([x], a) \<and> length x = 6 \<and> final_rec = [x @ [1]] \<and> (x @ [1]) ! 6 = 1"
    using X x r l by simp
  then show ?thesis
    using b by blast
qed

theorem recommendation_at_target_fidelity_witness:
  "get_recommendation quiet_library empty_gp = Inr [[0, 0, 0, 0, 0, 0, 1]]
   \<and> (\<exists>x. length x = 6 \<and> [[0, 0, 0, 0, 0, 0, 1::real]] = [x @ [1]] \<and> (x @ [1]) ! 6 = 1)"
proof -
  have e: "get_recommendation quiet_library empty_gp = Inr [[0, 0, 0, 0, 0, 0, 1]]"
    by code_simp
  from recommendation_at_target_fidelity [OF e] e show ?thesis
    by blast
qed


lemma torch_cat_dim1_rows:
  "torch_cat_dim1 A B = Inr C \<Longrightarrow> length C = length A \<and> C = map2 (@) A B \<and> length A = length B"
  by (auto simp: torch_cat_dim1_def split: if_splits)

lemma generate_initial_data_shape:
  assumes "generate_initial_data L n = Inr (tx, ty)"
  shows "length tx = n" "\<forall>r \<in> set tx. length r = 7" "length ty = n" "\<forall>r \<in> set ty. length r = 1"
    "\<forall>r \<in> set tx. r ! 6 \<in> set fidelities"
proof -
  define A where "A = torch_rand L n 6"
  define F where "F = map (map (\<lambda>k. fidelities ! k)) (torch_randint L 3 n 1)"
  from assms obtain vals where tx: "torch_cat_dim1 A F = Inr tx"
    and vals: "problem L tx = Inr vals" and ty: "ty = unsqueeze_last vals"
    by (auto simp: generate_initial_data_def Let_def bind_Inr_iff A_def F_def)
  have lA: "length A = n" and lF: "length F = n"
    by (simp_all add: A_def F_def torch_rand_def torch_randint_def)
  from tx have txe: "tx = map2 (@) A F"
    using torch_cat_dim1_rows by blast
  show "length tx = n"
    by (simp add: txe lA lF)
  have rows: "\<forall>i < n. tx ! i = A ! i @ F ! i"
    by (simp add: txe lA lF)
  have rA: "\<forall>i < n. length (A ! i) = 6"
    by (simp add: A_def torch_rand_def)
  have rF: "\<forall>i < n. \<exists>k < 3. F ! i = [fidelities ! k]"
  proof (intro allI impI)
    fix i assume "i < n"
    then have "F ! i = [fidelities ! (randint_entry L i 0 mod 3)]"
      by (simp add: F_def torch_randint_def)
    moreover have "randint_entry L i 0 mod 3 < 3" by simp
    ultimately show "\<exists>k < 3. F ! i = [fidelities ! k]" by blast
  qed
  have "\<forall>i < n. length (tx ! i) = 7 \<and> tx ! i ! 6 \<in> set fidelities"
  proof (intro allI impI)
    fix i assume i: "i < n"
    with rF obtain k where k: "k < 3" "F ! i = [fidelities ! k]" by blast
    from i rA have "length (A ! i) = 6" by blast
    moreover have "length fidelities = 3"
      by (simp add: fidelities_def)
    then have "fidelities ! k \<in> set fidelities"
      using k(1) by (metis nth_mem)
    ultimately show "length (tx ! i) = 7 \<and> tx ! i ! 6 \<in> set fidelities"
      using rows i k(2) by (simp add: nth_append)
  qed
  then show "\<forall>r \<in> set tx. length r = 7" "\<forall>r \<in> set tx. r ! 6 \<in> set fidelities"
    using \<open>length tx = n\<close> by (auto simp: in_set_conv_nth)
  from vals have "vals = map (objective L) tx"
    by (simp add: problem_def lib_Inr_iff)
  then show "length ty = n" "\<forall>r \<in> set ty. length r = 1"
    using \<open>length tx = n\<close> by (auto simp: ty unsqueeze_last_def)
qed

lemma torch_cat_length: "torch_cat A B = Inr C \<Longrightarrow> C = A @ B"
  by (auto simp: torch_cat_def split: if_splits)

lemma problem_length: "problem L X = Inr v \<Longrightarrow> length v = length X"
  by (auto simp: problem_def lib_Inr_iff)

lemma initialize_model_data:
  assumes "initialize_model L tx ty = Inr (ml, g)"
  shows "ml = ExactMarginalLogLikelihood g" "train_X g = tx" "train_Y g = ty" "\<not> fitted g"
  using assms
  by (auto simp: initialize_model_def bind_Inr_iff lib_Inr_iff SingleTaskMultiFidelityGP_def
      new_mll_def)

lemma fit_gpytorch_mll_model:
  assumes "fit_gpytorch_mll L (ExactMarginalLogLikelihood g) = Inr ml"
  shows "model_of ml = g\<lparr>fitted := True\<rparr>"
  using assms by (auto simp: fit_gpytorch_mll_def lib_Inr_iff model_of_def)

lemma bo_iteration_step:
  assumes "bo_iteration S L st = Inr st'"
  shows "\<exists>new_x new_obj cost.
           length new_x = BATCH_SIZE \<and> length new_obj = BATCH_SIZE
           \<and> train_x st' = train_x st @ new_x \<and> train_obj st' = train_obj st @ new_obj
           \<and> cumulative_cost st' = cumulative_cost st + cost"
    and "\<exists>g. current_model st' = Some g \<and> train_X g = train_x st \<and> train_Y g = train_obj st
           \<and> fitted g"
proof -
  from assms obtain ml g ml' acq new_x new_obj cost tx' ty' where
    init: "initialize_model L (train_x st) (train_obj st) = Inr (ml, g)"
    and fit: "fit_gpytorch_mll L ml = Inr ml'"
    and obs: "optimize_mfkg_and_get_observation S L acq = Inr (new_x, new_obj, cost)"
    and tx': "torch_cat (train_x st) new_x = Inr tx'"
    and ty': "torch_cat (train_obj st) new_obj = Inr ty'"
    and st': "st' = \<lparr>train_x = tx', train_obj = ty',
        cumulative_cost = cumulative_cost st + cost, current_model = Some (model_of ml')\<rparr>"
    by (auto simp: bo_iteration_def bind_Inr_iff Let_def)
  from obs obtain a vals where
    m: "optimize_acqf_mixed L acq bounds [[(6, 0.5)], [(6, 0.75)], [(6, 1.0)]] BATCH_SIZE
         (NUM_RESTARTS S) (RAW_SAMPLES S) [(''batch_limit'', 5), (''maxiter'', 200)]
       = Inr (new_x, a)"
    and p: "problem L new_x = Inr vals" and o: "new_obj = unsqueeze_last vals"
    by (rule mfkg_observation_parts)
  have lx: "length new_x = BATCH_SIZE"
    using optimize_acqf_mixed_rows(1) [OF m] .
  have lo: "length new_obj = BATCH_SIZE"
    using problem_length [OF p] lx by (simp add: o unsqueeze_last_def)
  show "\<exists>new_x new_obj cost.
           length new_x = BATCH_SIZE \<and> length new_obj = BATCH_SIZE
           \<and> train_x st' = train_x st @ new_x \<and> train_obj st' = train_obj st @ new_obj
           \<and> cumulative_cost st' = cumulative_cost st + cost"
    using lx lo torch_cat_length [OF tx'] torch_cat_length [OF ty'] st' by auto
  from initialize_model_data [OF init] fit_gpytorch_mll_model [of L g ml'] fit
  show "\<exists>g. current_model st' = Some g \<and> train_X g = train_x st \<and> train_Y g = train_obj st
           \<and> fitted g"
    by (simp add: st')
qed

lemma bo_loop_rows:
  assumes "bo_loop bo_iteration S Ls i st = Inr st'"
  shows "length (train_x st') = length (train_x st) + BATCH_SIZE * i
       \<and> length (train_obj st') = length (train_obj st) + BATCH_SIZE * i"
  using assms
proof (induction i arbitrary: st')
  case 0
  then show ?case by simp
next
  case (Suc i)
  from Suc.prems obtain mid where mid: "bo_loop bo_iteration S Ls i st = Inr mid"
    and last: "bo_iteration S (Ls i) mid = Inr st'"
    by (auto simp: bind_Inr_iff)
  from bo_iteration_step(1) [OF last] Suc.IH [OF mid] show ?case
    by auto
qed


lemma length_fix_features: "length (fix_features ff y) = length y"
  unfolding fix_features_def by (induction ff arbitrary: y) auto

lemma ncols_rows: "T \<noteq> [] \<Longrightarrow> \<forall>r \<in> set T. length r = k \<Longrightarrow> ncols T = k"
  by (cases T) (simp_all add: ncols_def)

lemma torch_cat_same_width:
  assumes "\<forall>r \<in> set A. length r = k" and "\<forall>r \<in> set B. length r = k"
  shows "torch_cat A B = Inr (A @ B)"
proof (cases "A = [] \<or> B = []")
  case True
  then show ?thesis by (auto simp: torch_cat_def)
next
  case False
  then have "ncols A = k" "ncols B = k"
    using assms ncols_rows by blast+
  then show ?thesis by (simp add: torch_cat_def)
qed

lemma mfkg_observation_returns:
  assumes quiet: "\<forall>c. raises L c = None"
  shows "\<exists>new_x new_obj cost.
           optimize_mfkg_and_get_observation S L acq = Inr (new_x, new_obj, cost)"
proof -
  have libq: "lib L c v = Inr v" for c and v :: 'a
    using quiet by (simp add: lib_def)
  obtain new_x a where
    m: "optimize_acqf_mixed L acq bounds [[(6, 0.5)], [(6, 0.75)], [(6, 1.0)]] BATCH_SIZE
         (NUM_RESTARTS S) (RAW_SAMPLES S) [(''batch_limit'', 5), (''maxiter'', 200)]
       = Inr (new_x, a)"
    by (simp add: optimize_acqf_mixed_def Let_def libq)
  have rows: "\<forall>x \<in> set new_x. length x = 7"
  proof
    fix x assume "x \<in> set new_x"
    with optimize_acqf_mixed_rows(2) [OF m]
    obtain ff y where "length y = ncols bounds" "x = fix_features ff y"
      by blast
    then show "length x = 7"
      by (simp add: ncols_bounds length_fix_features)
  qed
  then have "cost_forward L cost_model new_x = Inr (map (\<lambda>x. [row_cost cost_model x]) new_x)"
    by (simp add: cost_forward_def libq list_all_iff cost_model_def AffineFidelityCostModel_def)
  with m show ?thesis
    by (simp add: optimize_mfkg_and_get_observation_def bind_def problem_def libq Let_def)
qed

lemma bo_iteration_returns:
  assumes quiet: "\<forall>c. raises L c = None"
    and wx: "\<forall>r \<in> set (train_x st). length r = 7"
    and wy: "\<forall>r \<in> set (train_obj st). length r = 1"
  shows "\<exists>st'. bo_iteration S L st = Inr st'
           \<and> (\<forall>r \<in> set (train_x st'). length r = 7)
           \<and> (\<forall>r \<in> set (train_obj st'). length r = 1)"
proof -
  have libq: "lib L c v = Inr v" for c and v :: 'a
    using quiet by (simp add: lib_def)
  define g where "g = \<lparr>train_X = train_x st, train_Y = train_obj st, standardize_m = 1,
      data_fidelities = [6], fitted = True\<rparr>"
  have init: "initialize_model L (train_x st) (train_obj st)
      = Inr (ExactMarginalLogLikelihood (g\<lparr>fitted := False\<rparr>), g\<lparr>fitted := False\<rparr>)"
    by (simp add: initialize_model_def bind_def libq SingleTaskMultiFidelityGP_def new_mll_def
        g_def)
  have fit: "fit_gpytorch_mll L (ExactMarginalLogLikelihood (g\<lparr>fitted := False\<rparr>))
      = Inr (ExactMarginalLogLikelihood g)"
    by (simp add: fit_gpytorch_mll_def libq g_def)
  obtain acq where acq: "get_mfkg S L g = Inr acq"
    by (simp add: get_mfkg_def bind_def libq new_acqf_def optimize_acqf_def Let_def)
  obtain new_x new_obj cost where
    obs: "optimize_mfkg_and_get_observation S L acq = Inr (new_x, new_obj, cost)"
    using mfkg_observation_returns [OF quiet] by blast
  have rx: "\<forall>x \<in> set new_x. length x = 7"
    using mfkg_observation_rows [OF obs] by blast
  from obs obtain vals where "new_obj = unsqueeze_last vals"
    by (rule mfkg_observation_parts)
  then have ry: "\<forall>r \<in> set new_obj. length r = 1"
    by (auto simp: unsqueeze_last_def)
  have cx: "torch_cat (train_x st) new_x = Inr (train_x st @ new_x)"
    using wx rx by (rule torch_cat_same_width)
  have cy: "torch_cat (train_obj st) new_obj = Inr (train_obj st @ new_obj)"
    using wy ry by (rule torch_cat_same_width)
  have "bo_iteration S L st = Inr \<lparr>train_x = train_x st @ new_x,
      train_obj = train_obj st @ new_obj, cumulative_cost = cumulative_cost st + cost,
      current_model = Some g\<rparr>"
    by (simp add: bo_iteration_def init fit acq obs cx cy bind_def model_of_def Let_def)
  then show ?thesis
    using wx wy rx ry by auto
qed

lemma bo_loop_returns:
  assumes quiet: "\<forall>k c. raises (Ls k) c = None"
    and wx: "\<forall>r \<in> set (train_x st). length r = 7"
    and wy: "\<forall>r \<in> set (train_obj st). length r = 1"
  shows "\<exists>st'. bo_loop bo_iteration S Ls i st = Inr st'
           \<and> (\<forall>r \<in> set (train_x st'). length r = 7)
           \<and> (\<forall>r \<in> set (train_obj st'). length r = 1)"
proof (induction i)
  case 0
  show ?case using wx wy by simp
next
  case (Suc i)
  then obtain mid where mid: "bo_loop bo_iteration S Ls i st = Inr mid"
    and mx: "\<forall>r \<in> set (train_x mid). length r = 7"
    and my: "\<forall>r \<in> set (train_obj mid). length r = 1"
    by blast
  from quiet have "\<forall>c. raises (Ls i) c = None" by blast
  from bo_iteration_returns [OF this mx my, of S] show ?case
    by (simp add: mid bind_def)
qed

lemma generate_initial_data_returns:
  assumes "\<forall>c. raises L c = None"
  shows "\<exists>tx ty. generate_initial_data L n = Inr (tx, ty)"
  using assms
  by (simp add: generate_initial_data_def Let_def torch_cat_dim1_def torch_rand_def
      torch_randint_def bind_def problem_def lib_def)


text \<open>
  C5. \<open>generate_initial_data\<close> with \<open>n = 16\<close> returns \<open>train_x\<close> of 16 rows of 7
  columns and \<open>train_obj\<close> of 16 rows of 1 column. A turn of the loop fits a fresh model
  on all the data it starts with and appends \<open>BATCH_SIZE = 4\<close> rows to \<open>train_x\<close> and to
  \<open>train_obj\<close>. So after \<open>i\<close> turns from the initial data both have \<open>16 + 4 * i\<close> rows.
  When no call of the library raises, the initial data and every number of turns do
  return.
\<close>

theorem bo_loop_row_counts:
  "(generate_initial_data L0 16 = Inr (tx, ty) \<longrightarrow>
      length tx = 16 \<and> (\<forall>r \<in> set tx. length r = 7)
      \<and> length ty = 16 \<and> (\<forall>r \<in> set ty. length r = 1))
   \<and> (bo_iteration S L st = Inr st' \<longrightarrow>
        (\<exists>new_x new_obj cost.
           length new_x = BATCH_SIZE \<and> length new_obj = BATCH_SIZE
           \<and> train_x st' = train_x st @ new_x \<and> train_obj st' = train_obj st @ new_obj
           \<and> cumulative_cost st' = cumulative_cost st + cost)
        \<and> (\<exists>g. current_model st' = Some g \<and> train_X g = train_x st
              \<and> train_Y g = train_obj st \<and> fitted g))
   \<and> BATCH_SIZE = 4
   \<and> (generate_initial_data L0 16 = Inr (tx, ty)
        \<and> bo_loop bo_iteration S Ls i
             \<lparr>train_x = tx, train_obj = ty, cumulative_cost = 0.0, current_model = None\<rparr>
           = Inr st'' \<longrightarrow>
        length (train_x st'') = 16 + 4 * i \<and> length (train_obj st'') = 16 + 4 * i)
   \<and> ((\<forall>c. raises L0 c = None) \<and> (\<forall>k c. raises (Ls k) c = None) \<longrightarrow>
        (\<exists>tx ty st. generate_initial_data L0 16 = Inr (tx, ty)
           \<and> bo_loop bo_iteration S Ls i
                \<lparr>train_x = tx, train_obj = ty, cumulative_cost = 0.0, current_model = None\<rparr>
              = Inr st))"
proof -
  have a: "generate_initial_data L0 16 = Inr (tx, ty) \<longrightarrow>
      length tx = 16 \<and> (\<forall>r \<in> set tx. length r = 7)
      \<and> length ty = 16 \<and> (\<forall>r \<in> set ty. length r = 1)"
    using generate_initial_data_shape(1-4) [of L0 16 tx ty] by blast
  have b: "bo_iteration S L st = Inr st' \<longrightarrow>
        (\<exists>new_x new_obj cost.
           length new_x = BATCH_SIZE \<and> length new_obj = BATCH_SIZE
           \<and> train_x st' = train_x st @ new_x \<and> train_obj st' = train_obj st @ new_obj
           \<and> cumulative_cost st' = cumulative_cost st + cost)
        \<and> (\<exists>g. current_model st' = Some g \<and> train_X g = train_x st
              \<and> train_Y g = train_obj st \<and> fitted g)"
    using bo_iteration_step [of S L st st'] by blast
  have c: "BATCH_SIZE = 4"
    by (simp add: BATCH_SIZE_def)
  have d: "generate_initial_data L0 16 = Inr (tx, ty)
        \<and> bo_loop bo_iteration S Ls i
             \<lparr>train_x = tx, train_obj = ty, cumulative_cost = 0.0, current_model = None\<rparr>
           = Inr st'' \<longrightarrow>
        length (train_x st'') = 16 + 4 * i \<and> length (train_obj st'') = 16 + 4 * i"
  proof
    assume h: "generate_initial_data L0 16 = Inr (tx, ty)
        \<and> bo_loop bo_iteration S Ls i
             \<lparr>train_x = tx, train_obj = ty, cumulative_cost = 0.0, current_model = None\<rparr>
           = Inr st''"
    then have "length tx = 16" "length ty = 16"
      using generate_initial_data_shape(1,3) [of L0 16 tx ty] by blast+
    moreover from h have "length (train_x st'')
          = length (train_x \<lparr>train_x = tx, train_obj = ty, cumulative_cost = 0.0,
                current_model = None\<rparr>) + BATCH_SIZE * i
        \<and> length (train_obj st'')
          = length (train_obj \<lparr>train_x = tx, train_obj = ty, cumulative_cost = 0.0,
                current_model = None\<rparr>) + BATCH_SIZE * i"
      using bo_loop_rows by blast
    ultimately show "length (train_x st'') = 16 + 4 * i \<and> length (train_obj st'') = 16 + 4 * i"
      by (simp add: c)
  qed
  have e: "(\<forall>c. raises L0 c = None) \<and> (\<forall>k c. raises (Ls k) c = None) \<longrightarrow>
        (\<exists>tx ty st. generate_initial_data L0 16 = Inr (tx, ty)
           \<and> bo_loop bo_iteration S Ls i
                \<lparr>train_x = tx, train_obj = ty, cumulative_cost = 0.0, current_model = None\<rparr>
              = Inr st)"
  proof
    assume q: "(\<forall>c. raises L0 c = None) \<and> (\<forall>k c. raises (Ls k) c = None)"
    then obtain tx0 ty0 where g: "generate_initial_data L0 16 = Inr (tx0, ty0)"
      using generate_initial_data_returns by blast
    have wx: "\<forall>r \<in> set (train_x \<lparr>train_x = tx0, train_obj = ty0, cumulative_cost = 0.0,
        current_model = None\<rparr>). length r = 7"
      using generate_initial_data_shape(2) [OF g] by simp
    have wy: "\<forall>r \<in> set (train_obj \<lparr>train_x = tx0, train_obj = ty0, cumulative_cost = 0.0,
        current_model = None\<rparr>). length r = 1"
      using generate_initial_data_shape(4) [OF g] by simp
    from q have "\<forall>k c. raises (Ls k) c = None" by blast
    from bo_loop_returns [OF this wx wy, of S i] g
    show "\<exists>tx ty st. generate_initial_data L0 16 = Inr (tx, ty)
           \<and> bo_loop bo_iteration S Ls i
                \<lparr>train_x = tx, train_obj = ty, cumulative_cost = 0.0, current_model = None\<rparr>
              = Inr st"
      by blast
  qed
  from a b c d e show ?thesis by blast
qed

theorem bo_loop_row_counts_witness:
  "(\<forall>c. raises quiet_library c = None)
   \<and> (\<exists>tx ty st. generate_initial_data quiet_library 16 = Inr (tx, ty)
        \<and> bo_loop bo_iteration None (\<lambda>k. quiet_library) 3
             \<lparr>train_x = tx, train_obj = ty, cumulative_cost = 0.0, current_model = None\<rparr>
           = Inr st
        \<and> length tx = 16 \<and> length (train_x st) = 16 + 4 * 3
        \<and> length (train_obj st) = 16 + 4 * 3)"
proof -
  have q: "\<forall>c. raises quiet_library c = None"
    by (simp add: quiet_library_def)
  have r: "\<And>tx ty st''.
    (generate_initial_data quiet_library 16 = Inr (tx, ty) \<longrightarrow>
       length tx = 16 \<and> (\<forall>r \<in> set tx. length r = 7)
       \<and> length ty = 16 \<and> (\<forall>r \<in> set ty. length r = 1))
    \<and> (generate_initial_data quiet_library 16 = Inr (tx, ty)
        \<and> bo_loop bo_iteration None (\<lambda>k. quiet_library) 3
             \<lparr>train_x = tx, train_obj = ty, cumulative_cost = 0.0, current_model = None\<rparr>
           = Inr st'' \<longrightarrow>
        length (train_x st'') = 16 + 4 * 3 \<and> length (train_obj st'') = 16 + 4 * 3)
    \<and> (\<exists>tx ty st. generate_initial_data quiet_library 16 = Inr (tx, ty)
           \<and> bo_loop bo_iteration None (\<lambda>k. quiet_library) 3
                \<lparr>train_x = tx, train_obj = ty, cumulative_cost = 0.0, current_model = None\<rparr>
              = Inr st)"
    using q
      bo_loop_row_counts [where ?L0.0 = quiet_library and Ls = "\<lambda>k. quiet_library"
        and S = None and i = 3]
    by blast
  then obtain tx ty st where
    g: "generate_initial_data quiet_library 16 = Inr (tx, ty)"
    and l: "bo_loop bo_iteration None (\<lambda>k. quiet_library) 3
             \<lparr>train_x = tx, train_obj = ty, cumulative_cost = 0.0, current_model = None\<rparr>
           = Inr st"
    by blast
  with r [of tx ty st] have "length tx = 16" "length (train_x st) = 16 + 4 * 3"
    "length (train_obj st) = 16 + 4 * 3"
    by blast+
  with q g l show ?thesis by blast
qed

lemma py_not_cases:
  "py_not v \<longleftrightarrow> v = None \<or> v = Some []"
  by (auto simp: py_not_def split: option.splits)



















































end
